theory Spec2Isabelle
  imports
    Complex_Main
    "HOL-Library.Char_ord"
    "HOL-Library.List_Lexorder"
    "HOL-Library.Product_Lexorder"
begin

section \<open>The client appointments screen\<close>

text \<open>
  A shallow embedding of the client appointments screen (\<^verbatim>\<open>src/unnamed/part_000\<close>):
  the fetch of the user's appointments, the derived views (verified, upcoming, past, next),
  the 48-hour cancellation rule and the cancel operation against the remote table.

  JavaScript strings are modelled as \<^typ>\<open>string\<close> (bytes of the UTF-8 text), a nullable
  field as an \<^typ>\<open>string option\<close>, a JavaScript number that may be \<^verbatim>\<open>NaN\<close> as an
  \<^typ>\<open>int option\<close> (\<^term>\<open>None\<close> is \<^verbatim>\<open>NaN\<close>), and a \<^verbatim>\<open>Date\<close> as its time value:
  milliseconds since 1970-01-01T00:00Z, or \<^verbatim>\<open>NaN\<close> for an Invalid Date.
\<close>

subsection \<open>Strings\<close>

text \<open>
  \<^verbatim>\<open>String.prototype.trim\<close> restricted to ASCII: it strips the ASCII white space
  characters only. The ownership tests below do not depend on it: they take the
  engine's function as a parameter.
\<close>

definition isWhiteSpace :: "char \<Rightarrow> bool" where
  "isWhiteSpace c = (c = CHR '' '' \<or> (9 \<le> (of_char c :: nat) \<and> (of_char c :: nat) \<le> 13))"

definition trim :: "string \<Rightarrow> string" where
  "trim s = rev (dropWhile isWhiteSpace (rev (dropWhile isWhiteSpace s)))"

text \<open>
  \<^verbatim>\<open>String.prototype.toLowerCase\<close> restricted to ASCII: it folds the letters A to Z
  and keeps every other byte.
\<close>

definition lowerChar :: "char \<Rightarrow> char" where
  "lowerChar c = (if 65 \<le> (of_char c :: nat) \<and> (of_char c :: nat) \<le> 90
                  then char_of ((of_char c :: nat) + 32) else c)"

definition toLowerCase :: "string \<Rightarrow> string" where
  "toLowerCase s = map lowerChar s"

text \<open>\<^verbatim>\<open>s.padStart(2, '0')\<close>.\<close>

definition padStart2 :: "string \<Rightarrow> string" where
  "padStart2 s = replicate (2 - length s) (CHR ''0'') @ s"

text \<open>\<^verbatim>\<open>s.split(':')\<close>: the pieces between the colons; never the empty list.\<close>

fun splitColon :: "string \<Rightarrow> string list" where
  "splitColon [] = [[]]"
| "splitColon (c # cs) =
     (if c = CHR '':'' then [] # splitColon cs
      else (case splitColon cs of
              [] \<Rightarrow> [[c]]
            | p # ps \<Rightarrow> (c # p) # ps))"

text \<open>
  Truthiness of a nullable string: \<^verbatim>\<open>null\<close>, \<^verbatim>\<open>undefined\<close> and \<^verbatim>\<open>''\<close> are falsy.
\<close>

definition truthy :: "string option \<Rightarrow> bool" where
  "truthy v = (case v of None \<Rightarrow> False | Some s \<Rightarrow> s \<noteq> [])"

text \<open>\<^verbatim>\<open>a || b\<close> on strings with a literal as the last resort.\<close>

definition orElse :: "string option \<Rightarrow> string \<Rightarrow> string" where
  "orElse v d = (case v of None \<Rightarrow> d | Some s \<Rightarrow> if s = [] then d else s)"

subsection \<open>Records of the appointments table and the signed-in user\<close>

text \<open>
  \<^verbatim>\<open>AvailableTimeSlot\<close>, with the fields this screen reads. \<^verbatim>\<open>id\<close> is named
  \<open>slot_id\<close> here. \<open>slot_date\<close> and \<open>slot_time\<close> are strings; the empty string is
  the falsy value that the tests \<^verbatim>\<open>!appointment?.slot_date\<close> and
  \<^verbatim>\<open>a.slot_time || '00:00'\<close> look for. A \<^verbatim>\<open>null\<close> date is not a value of this
  record: the screen only holds rows that the fetch selected by their date.
\<close>

record AvailableTimeSlot =
  slot_id :: string
  slot_date :: string
  slot_time :: string
  is_available :: bool
  client_name :: "string option"
  client_phone :: "string option"
  service_name :: "string option"

text \<open>
  The user of the auth store. A \<^verbatim>\<open>null\<close> user reads as both fields missing
  (\<^verbatim>\<open>user?.name\<close>, \<^verbatim>\<open>user?.phone\<close>).
\<close>

record User =
  name :: "string option"
  phone :: "string option"

subsection \<open>The calendar of the Date object\<close>

definition msPerDay :: int where
  "msPerDay = 86400000"

definition msPerMinute :: int where
  "msPerMinute = 60000"

definition isLeapYear :: "int \<Rightarrow> bool" where
  "isLeapYear y = (y mod 4 = 0 \<and> (y mod 100 \<noteq> 0 \<or> y mod 400 = 0))"

text \<open>
  The calendar of ECMAScript, in days since 1970-01-01. \<open>dayFromYear\<close> is
  \<^verbatim>\<open>DayFromYear\<close>, the day number of the first day of a year. \<open>yearFromDay\<close> is the
  largest year whose first day is not after the given day (\<^verbatim>\<open>YearFromTime\<close>): the
  estimate \<open>e\<close> is never off by more than one year, so it is \<open>e + 1\<close>, \<open>e\<close> or
  \<open>e - 1\<close>.
\<close>

definition dayFromYear :: "int \<Rightarrow> int" where
  "dayFromYear y =
     365 * (y - 1970) + (y - 1969) div 4 - (y - 1901) div 100 + (y - 1601) div 400"

definition yearFromDay :: "int \<Rightarrow> int" where
  "yearFromDay day =
     (let e = 1970 + (400 * day) div 146097
      in if dayFromYear (e + 1) \<le> day then e + 1
         else if dayFromYear e \<le> day then e
         else e - 1)"

definition leapDays :: "int \<Rightarrow> int" where
  "leapDays y = (if isLeapYear y then 1 else 0)"

text \<open>
  The day within the year on which month \<open>m\<close> (1 to 12) starts, and the month a day
  within the year falls in (\<^verbatim>\<open>MonthFromTime\<close>); \<open>l\<close> is 1 in a leap year.
\<close>

definition monthStart :: "int \<Rightarrow> int \<Rightarrow> int" where
  "monthStart m l =
     (if m = 1 then 0 else if m = 2 then 31 else if m = 3 then 59 + l
      else if m = 4 then 90 + l else if m = 5 then 120 + l else if m = 6 then 151 + l
      else if m = 7 then 181 + l else if m = 8 then 212 + l else if m = 9 then 243 + l
      else if m = 10 then 273 + l else if m = 11 then 304 + l else 334 + l)"

definition monthFromDay :: "int \<Rightarrow> int \<Rightarrow> int" where
  "monthFromDay d l =
     (if d < 31 then 1 else if d < 59 + l then 2 else if d < 90 + l then 3
      else if d < 120 + l then 4 else if d < 151 + l then 5 else if d < 181 + l then 6
      else if d < 212 + l then 7 else if d < 243 + l then 8 else if d < 273 + l then 9
      else if d < 304 + l then 10 else if d < 334 + l then 11 else 12)"

text \<open>
  Day number of a date (\<^verbatim>\<open>MakeDay\<close> for a month from 1 to 12; a day of the month past
  the end of the month runs into the next one), and the date of a day number
  (\<^verbatim>\<open>YearFromTime\<close>, \<^verbatim>\<open>MonthFromTime\<close>, \<^verbatim>\<open>DateFromTime\<close>).
\<close>

definition daysFromCivil :: "int \<Rightarrow> int \<Rightarrow> int \<Rightarrow> int" where
  "daysFromCivil y m d = dayFromYear y + monthStart m (leapDays y) + d - 1"

definition civilFromDays :: "int \<Rightarrow> int \<times> int \<times> int" where
  "civilFromDays z =
     (let y = yearFromDay z;
          dayWithinYear = z - dayFromYear y;
          m = monthFromDay dayWithinYear (leapDays y)
      in (y, m, dayWithinYear - monthStart m (leapDays y) + 1))"

subsection \<open>Parsing and printing dates\<close>

definition isDigit :: "char \<Rightarrow> bool" where
  "isDigit c = (48 \<le> (of_char c :: nat) \<and> (of_char c :: nat) \<le> 57)"

definition digitsVal :: "string \<Rightarrow> int option" where
  "digitsVal s =
     (if s \<noteq> [] \<and> list_all isDigit s
      then Some (foldl (\<lambda>acc c. 10 * acc + (int (of_char c) - 48)) 0 s)
      else None)"

definition digitChar :: "int \<Rightarrow> char" where
  "digitChar n = char_of (nat (48 + n mod 10))"

definition pad2 :: "int \<Rightarrow> string" where
  "pad2 n = [digitChar (n div 10), digitChar n]"

definition pad4 :: "int \<Rightarrow> string" where
  "pad4 n = [digitChar (n div 1000), digitChar (n div 100), digitChar (n div 10), digitChar n]"

text \<open>
  The date part \<^verbatim>\<open>YYYY-MM-DD\<close>, as a day number. The month is 01 to 12 and the day
  01 to 31; a day past the end of the month runs into the next month, as the engines
  read it.
\<close>

definition parseDatePart :: "string \<Rightarrow> int option" where
  "parseDatePart s =
     (if length s = 10 \<and> s ! 4 = CHR ''-'' \<and> s ! 7 = CHR ''-'' then
        (case (digitsVal (take 4 s), digitsVal (take 2 (drop 5 s)), digitsVal (drop 8 s)) of
           (Some y, Some m, Some d) \<Rightarrow>
             (if 1 \<le> m \<and> m \<le> 12 \<and> 1 \<le> d \<and> d \<le> 31
              then Some (daysFromCivil y m d) else None)
         | _ \<Rightarrow> None)
      else None)"

text \<open>
  A time of day from its hour, minute, second and millisecond: hours 00 to 23, or
  24:00:00.000 for the end of the day.
\<close>

definition timeOfDay :: "int \<Rightarrow> int \<Rightarrow> int \<Rightarrow> int \<Rightarrow> int option" where
  "timeOfDay h mi sec ms =
     (if (h \<le> 23 \<and> mi \<le> 59 \<and> sec \<le> 59) \<or> (h = 24 \<and> mi = 0 \<and> sec = 0 \<and> ms = 0)
      then Some (h * 3600000 + mi * 60000 + sec * 1000 + ms) else None)"

text \<open>The fraction of a second \<^verbatim>\<open>.s\<close>, \<^verbatim>\<open>.ss\<close>, \<^verbatim>\<open>.sss\<close>, ...: its first three digits.\<close>

definition fractionMs :: "string \<Rightarrow> int option" where
  "fractionMs s = (if s = [] then None else digitsVal (take 3 (s @ ''00'')))"

text \<open>
  The time part \<^verbatim>\<open>HH:mm\<close>, \<^verbatim>\<open>HH:mm:ss\<close> or \<^verbatim>\<open>HH:mm:ss.sss\<close>, as milliseconds
  within the day.
\<close>

definition parseTimePart :: "string \<Rightarrow> int option" where
  "parseTimePart s =
     (if length s = 5 \<and> s ! 2 = CHR '':'' then
        (case (digitsVal (take 2 s), digitsVal (drop 3 s)) of
           (Some h, Some mi) \<Rightarrow> timeOfDay h mi 0 0
         | _ \<Rightarrow> None)
      else if length s = 8 \<and> s ! 2 = CHR '':'' \<and> s ! 5 = CHR '':'' then
        (case (digitsVal (take 2 s), digitsVal (take 2 (drop 3 s)), digitsVal (drop 6 s)) of
           (Some h, Some mi, Some sec) \<Rightarrow> timeOfDay h mi sec 0
         | _ \<Rightarrow> None)
      else if 9 < length s \<and> s ! 2 = CHR '':'' \<and> s ! 5 = CHR '':'' \<and> s ! 8 = CHR ''.'' then
        (case (digitsVal (take 2 s), digitsVal (take 2 (drop 3 s)),
               digitsVal (take 2 (drop 6 s)), digitsVal (drop 9 s), fractionMs (drop 9 s)) of
           (Some h, Some mi, Some sec, Some f, Some ms) \<Rightarrow> timeOfDay h mi sec ms
         | _ \<Rightarrow> None)
      else None)"

text \<open>
  \<^verbatim>\<open>new Date(s).getTime()\<close> for the strings this screen builds. \<open>tz\<close> is the offset
  of the device's local time from UTC in minutes (local = UTC + \<open>tz\<close>), taken as
  fixed: a change of the offset between two dates (daylight saving) is outside the
  model. ECMAScript reads a date-only string as UTC and a date-time string without a
  zone as local time. A string that is not of the Date Time String Format (a time such
  as \<^verbatim>\<open>9:30\<close>, a zone suffix) is left to the engine by ECMAScript: some engines read
  it, some answer Invalid Date. It is an Invalid Date here, and the properties below
  that depend on a parsed date say so in their hypotheses.
\<close>

definition Date_parse :: "int \<Rightarrow> string \<Rightarrow> int option" where
  "Date_parse tz s =
     (if length s = 10 then map_option (\<lambda>d. d * msPerDay) (parseDatePart s)
      else if 10 < length s \<and> s ! 10 = CHR ''T'' then
        (case (parseDatePart (take 10 s), parseTimePart (drop 11 s)) of
           (Some d, Some t) \<Rightarrow> Some (d * msPerDay + t - tz * msPerMinute)
         | _ \<Rightarrow> None)
      else None)"

text \<open>\<^verbatim>\<open>date.setHours(0, 0, 0, 0)\<close>: the local midnight of the date's local day.\<close>

definition setHours0 :: "int \<Rightarrow> int option \<Rightarrow> int option" where
  "setHours0 tz t = map_option (\<lambda>v. v - (v + tz * msPerMinute) mod msPerDay) t"

text \<open>
  \<^verbatim>\<open>date.toISOString().split('T')[0]\<close> of a valid date: its calendar date in UTC
  (years 0 to 9999).
\<close>

definition toISODate :: "int \<Rightarrow> string" where
  "toISODate t =
     (case civilFromDays (t div msPerDay) of
        (y, m, d) \<Rightarrow> pad4 y @ ''-'' @ pad2 m @ ''-'' @ pad2 d)"

text \<open>
  \<^verbatim>\<open>date.setDate(today.getDate() + i)\<close> on a copy of \<open>today\<close>: the same local
  wall-clock time \<open>i\<close> days later, which under the fixed offset of this model is
  \<open>i\<close> days of milliseconds later. (Across a change of the offset the wall clock is
  kept and the instant moves by an hour more or less.)
\<close>

definition setDatePlus :: "int \<Rightarrow> int \<Rightarrow> int" where
  "setDatePlus today i = today + i * msPerDay"

text \<open>Comparison of a Date with a valid Date: false when the left side is \<^verbatim>\<open>NaN\<close>.\<close>

definition dateGe :: "int option \<Rightarrow> int \<Rightarrow> bool" where
  "dateGe a b = (case a of None \<Rightarrow> False | Some v \<Rightarrow> v \<ge> b)"

definition dateLt :: "int option \<Rightarrow> int \<Rightarrow> bool" where
  "dateLt a b = (case a of None \<Rightarrow> False | Some v \<Rightarrow> v < b)"

subsection \<open>Ownership\<close>

text \<open>
  \<^verbatim>\<open>String.prototype.trim\<close> and \<^verbatim>\<open>String.prototype.toLowerCase\<close> work on all of
  Unicode. The ownership tests take them as the parameters \<open>tr\<close> and \<open>lc\<close>, so that
  what is proved of the tests holds for the functions of the engine, whatever they do
  outside ASCII. \<open>trim\<close> and \<open>toLowerCase\<close> above are their restrictions to ASCII,
  used to evaluate the sample data.

  The two channels of the ownership test, as both filters of the source write them:
  each side must be truthy, names are compared trimmed and lower-cased, phones trimmed.
\<close>

definition nameMatchWith ::
    "(string \<Rightarrow> string) \<Rightarrow> (string \<Rightarrow> string) \<Rightarrow> string option \<Rightarrow> string option \<Rightarrow> bool" where
  "nameMatchWith tr lc slotName userName =
     (case slotName of
        None \<Rightarrow> False
      | Some c \<Rightarrow> c \<noteq> [] \<and>
          (case userName of
             None \<Rightarrow> False
           | Some u \<Rightarrow> u \<noteq> [] \<and> lc (tr c) = lc (tr u)))"

definition phoneMatchWith ::
    "(string \<Rightarrow> string) \<Rightarrow> string option \<Rightarrow> string option \<Rightarrow> bool" where
  "phoneMatchWith tr slotPhone userPhone =
     (case slotPhone of
        None \<Rightarrow> False
      | Some c \<Rightarrow> c \<noteq> [] \<and>
          (case userPhone of
             None \<Rightarrow> False
           | Some u \<Rightarrow> u \<noteq> [] \<and> tr c = tr u))"

definition nameMatch :: "string option \<Rightarrow> string option \<Rightarrow> bool" where
  "nameMatch slotName userName = nameMatchWith trim toLowerCase slotName userName"

definition phoneMatch :: "string option \<Rightarrow> string option \<Rightarrow> bool" where
  "phoneMatch slotPhone userPhone = phoneMatchWith trim slotPhone userPhone"

text \<open>
  The "belongs to" relation in the words of the specification: the record's name,
  trimmed and without regard to case, equals the identity's name, or the record's phone,
  trimmed, equals the identity's phone.
\<close>

definition belongsToWith ::
    "(string \<Rightarrow> string) \<Rightarrow> (string \<Rightarrow> string) \<Rightarrow> User \<Rightarrow> AvailableTimeSlot \<Rightarrow> bool" where
  "belongsToWith tr lc user r =
     ((\<exists>c u. client_name r = Some c \<and> name user = Some u \<and> lc (tr c) = lc (tr u))
      \<or> (\<exists>c u. client_phone r = Some c \<and> phone user = Some u \<and> tr c = tr u))"

definition belongsTo :: "User \<Rightarrow> AvailableTimeSlot \<Rightarrow> bool" where
  "belongsTo user r = belongsToWith trim toLowerCase user r"

subsection \<open>The remote table and the fetch\<close>

text \<open>The rows of the \<^verbatim>\<open>appointments\<close> table.\<close>

type_synonym store = "AvailableTimeSlot list"

datatype error = QueryError | NoSingleRow

fun isPrefixOf :: "string \<Rightarrow> string \<Rightarrow> bool" where
  "isPrefixOf [] ys = True"
| "isPrefixOf (x # xs) [] = False"
| "isPrefixOf (x # xs) (y # ys) = (x = y \<and> isPrefixOf xs ys)"

fun containsSub :: "string \<Rightarrow> string \<Rightarrow> bool" where
  "containsSub p [] = (p = [])"
| "containsSub p (c # cs) = (isPrefixOf p (c # cs) \<or> containsSub p cs)"

text \<open>
  The server-side \<^verbatim>\<open>or(client_name.ilike.%name%,client_phone.eq.phone)\<close> filter. The
  match \<^verbatim>\<open>ilike.%name%\<close> is the table's, not the engine's: it is the parameter
  \<open>like\<close> (the trimmed name, then the column value). \<open>nameLike\<close> is the match for a
  name of ASCII text without pattern characters: a substring without regard to case.
\<close>

definition ilikeNameWith ::
    "(string \<Rightarrow> string) \<Rightarrow> (string \<Rightarrow> string \<Rightarrow> bool) \<Rightarrow> string option \<Rightarrow> AvailableTimeSlot \<Rightarrow> bool" where
  "ilikeNameWith tr like userName r =
     (case userName of
        None \<Rightarrow> False
      | Some u \<Rightarrow> u \<noteq> [] \<and>
          (case client_name r of
             None \<Rightarrow> False
           | Some c \<Rightarrow> like (tr u) c))"

definition eqPhoneWith :: "(string \<Rightarrow> string) \<Rightarrow> string option \<Rightarrow> AvailableTimeSlot \<Rightarrow> bool" where
  "eqPhoneWith tr userPhone r =
     (case userPhone of
        None \<Rightarrow> False
      | Some u \<Rightarrow> u \<noteq> [] \<and> client_phone r = Some (tr u))"

definition serverUserFilterWith ::
    "(string \<Rightarrow> string) \<Rightarrow> (string \<Rightarrow> string \<Rightarrow> bool) \<Rightarrow> string option \<Rightarrow> string option
      \<Rightarrow> AvailableTimeSlot \<Rightarrow> bool" where
  "serverUserFilterWith tr like userName userPhone r =
     (if truthy userName \<or> truthy userPhone
      then ilikeNameWith tr like userName r \<or> eqPhoneWith tr userPhone r
      else True)"

definition nameLike :: "string \<Rightarrow> string \<Rightarrow> bool" where
  "nameLike needle c = containsSub (toLowerCase needle) (toLowerCase c)"

text \<open>
  The order of the query: by date, then by time, a missing time last (the
  table's ascending order puts \<^verbatim>\<open>NULL\<close> last).
\<close>

definition orderKey :: "AvailableTimeSlot \<Rightarrow> string \<times> bool \<times> string" where
  "orderKey r = (slot_date r, slot_time r = [], slot_time r)"

text \<open>
  \<open>getUserAppointmentsForMultipleDates\<close>: the query (rows of the given dates that are
  booked, ordered by date and time, narrowed by the user filter), then the client-side
  filter for exact matches. \<open>queryFails\<close> says that the query returned an error, which
  the function rethrows.
\<close>

definition getUserAppointmentsForMultipleDatesWith ::
    "(string \<Rightarrow> string) \<Rightarrow> (string \<Rightarrow> string) \<Rightarrow> (string \<Rightarrow> string \<Rightarrow> bool)
      \<Rightarrow> bool \<Rightarrow> store \<Rightarrow> string list \<Rightarrow> string option \<Rightarrow> string option
      \<Rightarrow> error + AvailableTimeSlot list" where
  "getUserAppointmentsForMultipleDatesWith tr lc like queryFails db dates userName userPhone =
     (if queryFails then Inl QueryError
      else
        (let data = filter (serverUserFilterWith tr like userName userPhone)
                      (sort_key orderKey
                         (filter (\<lambda>r. slot_date r \<in> set dates \<and> \<not> is_available r) db))
         in Inr (if truthy userName \<or> truthy userPhone
                 then filter (\<lambda>slot. nameMatchWith tr lc (client_name slot) userName
                                       \<or> phoneMatchWith tr (client_phone slot) userPhone) data
                 else data)))"

definition getUserAppointmentsForMultipleDates ::
    "bool \<Rightarrow> store \<Rightarrow> string list \<Rightarrow> string option \<Rightarrow> string option \<Rightarrow> error + AvailableTimeSlot list" where
  "getUserAppointmentsForMultipleDates queryFails db dates userName userPhone =
     getUserAppointmentsForMultipleDatesWith trim toLowerCase nameLike
       queryFails db dates userName userPhone"

subsection \<open>The screen and its derived views\<close>

record Screen =
  userAppointments :: "AvailableTimeSlot list"
  isLoading :: bool
  refreshing :: bool
  showCancelModal :: bool
  showLateCancelModal :: bool
  selectedAppointment :: "AvailableTimeSlot option"
  isCanceling :: bool

text \<open>
  The body of the loop of \<open>loadUserAppointments\<close>: the date part of the ISO string
  of \<open>today\<close> moved by \<open>i\<close> days. \<open>loadDates\<close> is the list the loop pushes, for
  \<open>i\<close> from \<open>-7\<close> to \<open>14\<close>.
\<close>

definition dateString :: "int \<Rightarrow> int \<Rightarrow> string" where
  "dateString today i = toISODate (setDatePlus today i)"

definition loadDates :: "int \<Rightarrow> string list" where
  "loadDates today = map (dateString today) [-7..14]"

definition loadUserAppointments ::
    "bool \<Rightarrow> int \<Rightarrow> store \<Rightarrow> User \<Rightarrow> bool \<Rightarrow> Screen \<Rightarrow> Screen" where
  "loadUserAppointments queryFails now db user isRefresh s =
     (let finish = (\<lambda>s'. if isRefresh then s'\<lparr>refreshing := False\<rparr> else s'\<lparr>isLoading := False\<rparr>)
      in if \<not> truthy (name user) \<and> \<not> truthy (phone user) then finish s
         else
           (case getUserAppointmentsForMultipleDates queryFails db (loadDates now)
                   (name user) (phone user) of
              Inl e \<Rightarrow> finish s
            | Inr appointments \<Rightarrow> finish (s\<lparr>userAppointments := appointments\<rparr>)))"

text \<open>\<open>today\<close>: the local midnight of the instant the screen was mounted.\<close>

definition todayMidnight :: "int \<Rightarrow> int \<Rightarrow> int" where
  "todayMidnight tz now = now - (now + tz * msPerMinute) mod msPerDay"

definition verifiedUserAppointmentsWith ::
    "(string \<Rightarrow> string) \<Rightarrow> (string \<Rightarrow> string) \<Rightarrow> User \<Rightarrow> AvailableTimeSlot list
      \<Rightarrow> AvailableTimeSlot list" where
  "verifiedUserAppointmentsWith tr lc user appts =
     (if \<not> truthy (name user) \<and> \<not> truthy (phone user) then []
      else filter (\<lambda>slot. nameMatchWith tr lc (client_name slot) (name user)
                            \<or> phoneMatchWith tr (client_phone slot) (phone user)) appts)"

definition verifiedUserAppointments :: "User \<Rightarrow> AvailableTimeSlot list \<Rightarrow> AvailableTimeSlot list" where
  "verifiedUserAppointments user appts = verifiedUserAppointmentsWith trim toLowerCase user appts"

definition appointmentDate :: "int \<Rightarrow> AvailableTimeSlot \<Rightarrow> int option" where
  "appointmentDate tz slot = setHours0 tz (Date_parse tz (slot_date slot))"

definition upcomingAppointments :: "int \<Rightarrow> int \<Rightarrow> AvailableTimeSlot list \<Rightarrow> AvailableTimeSlot list" where
  "upcomingAppointments tz today verified =
     filter (\<lambda>slot. dateGe (appointmentDate tz slot) today) verified"

definition pastAppointments :: "int \<Rightarrow> int \<Rightarrow> AvailableTimeSlot list \<Rightarrow> AvailableTimeSlot list" where
  "pastAppointments tz today verified =
     filter (\<lambda>slot. dateLt (appointmentDate tz slot) today) verified"

text \<open>
  The \<open>dateTime\<close> that \<open>nextAppointment\<close> attaches to an upcoming appointment:
  \<^verbatim>\<open>new Date(`${a.slot_date}T${a.slot_time || '00:00'}`)\<close>.
\<close>

definition dateTimeOf :: "int \<Rightarrow> AvailableTimeSlot \<Rightarrow> int option" where
  "dateTimeOf tz a =
     Date_parse tz (slot_date a @ ''T'' @ (if slot_time a = [] then ''00:00'' else slot_time a))"

text \<open>
  The comparator \<^verbatim>\<open>(a, b) => a.dateTime.getTime() - b.dateTime.getTime()\<close>; a
  difference with an Invalid Date is \<^verbatim>\<open>NaN\<close>, which \<^verbatim>\<open>sort\<close> reads as \<open>+0\<close>.
\<close>

definition compareDateTime :: "('a \<times> int option) \<Rightarrow> ('a \<times> int option) \<Rightarrow> int" where
  "compareDateTime a b =
     (case (snd a, snd b) of
        (Some x, Some y) \<Rightarrow> x - y
      | _ \<Rightarrow> 0)"

text \<open>
  \<^verbatim>\<open>Array.prototype.sort\<close> as a stable insertion sort under a comparator. With a
  consistent comparator every stable sort gives this result; with \<^verbatim>\<open>NaN\<close> keys the
  order of more than two elements is left to the engine by ECMAScript.
\<close>

fun insertBy :: "('a \<Rightarrow> 'a \<Rightarrow> int) \<Rightarrow> 'a \<Rightarrow> 'a list \<Rightarrow> 'a list" where
  "insertBy cmp x [] = [x]"
| "insertBy cmp x (y # ys) = (if cmp x y \<le> 0 then x # y # ys else y # insertBy cmp x ys)"

fun sortBy :: "('a \<Rightarrow> 'a \<Rightarrow> int) \<Rightarrow> 'a list \<Rightarrow> 'a list" where
  "sortBy cmp [] = []"
| "sortBy cmp (x # xs) = insertBy cmp x (sortBy cmp xs)"

definition nextAppointment :: "int \<Rightarrow> AvailableTimeSlot list \<Rightarrow> AvailableTimeSlot option" where
  "nextAppointment tz upcoming =
     (if upcoming = [] then None
      else (case sortBy compareDateTime (map (\<lambda>a. (a, dateTimeOf tz a)) upcoming) of
              [] \<Rightarrow> None
            | w # ws \<Rightarrow> Some (fst w)))"

definition displayedUpcomingAppointments ::
    "AvailableTimeSlot list \<Rightarrow> AvailableTimeSlot option \<Rightarrow> AvailableTimeSlot list" where
  "displayedUpcomingAppointments upcoming nxt =
     (case nxt of
        None \<Rightarrow> upcoming
      | Some n \<Rightarrow> filter (\<lambda>a. slot_id a \<noteq> slot_id n) upcoming)"

subsection \<open>The 48-hour rule\<close>

text \<open>
  The \<open>dateTime\<close> of \<open>isWithin48Hours\<close>: the date, \<^verbatim>\<open>T\<close>, and the first two
  pieces of the time, each padded to two characters; \<^verbatim>\<open>00:00\<close> when the time is
  missing, \<^verbatim>\<open>00\<close> for a piece that is not there.
\<close>

definition appointmentDateTime :: "int \<Rightarrow> AvailableTimeSlot \<Rightarrow> int option" where
  "appointmentDateTime tz appointment =
     (let time = (if slot_time appointment \<noteq> [] then slot_time appointment else ''00:00'');
          parts = splitColon time;
          hh = (case parts of h # _ \<Rightarrow> h | _ \<Rightarrow> ''00'');
          mm = (case parts of _ # m # _ \<Rightarrow> m | _ \<Rightarrow> ''00'')
      in Date_parse tz (slot_date appointment @ ''T'' @ padStart2 hh @ '':'' @ padStart2 mm))"

text \<open>
  \<open>hours\<close> is a quotient of floating-point numbers in the source and a real number
  here. Both give the same answer to \<open>hours < 48\<close>: the difference is a whole number
  of milliseconds, so the exact quotient is \<open>48\<close> or at least \<open>1 / 3600000\<close> away
  from it, far more than the rounding of the division.
\<close>

definition isWithin48Hours :: "int \<Rightarrow> int \<Rightarrow> AvailableTimeSlot \<Rightarrow> bool" where
  "isWithin48Hours tz now appointment =
     (if slot_date appointment = [] then False
      else
        (let dateTime = appointmentDateTime tz appointment;
             diffMs = map_option (\<lambda>t. t - now) dateTime;
             hours = map_option (\<lambda>d. real_of_int d / (1000 * 60 * 60)) diffMs
         in (case hours of None \<Rightarrow> False | Some h \<Rightarrow> h < 48)))"

definition handleCancelAppointment :: "int \<Rightarrow> int \<Rightarrow> AvailableTimeSlot \<Rightarrow> Screen \<Rightarrow> Screen" where
  "handleCancelAppointment tz now appointment s =
     (let s' = s\<lparr>selectedAppointment := Some appointment\<rparr>
      in if isWithin48Hours tz now appointment then s'\<lparr>showLateCancelModal := True\<rparr>
         else s'\<lparr>showCancelModal := True\<rparr>)"

subsection \<open>The cancel operation\<close>

text \<open>
  What the collaborators do during one cancel is an input: whether the two table calls
  return an error, and whether the promise of each notifier resolves or rejects. The
  notifiers themselves are not among the sources; the cancel operation is modelled for
  both outcomes of each promise.
\<close>

datatype outcome = Resolves | Rejects

record World =
  selectFails :: bool
  updateFails :: bool
  slotWaitlist :: outcome
  serviceWaitlist :: outcome
  adminNotification :: outcome

text \<open>
  Modelled from the spec: the waitlist notifier (\<^verbatim>\<open>checkWaitlistAndNotify\<close>,
  \<^verbatim>\<open>notifyServiceWaitlistClients\<close> of \<^verbatim>\<open>@/lib/api/waitlistNotifications\<close>), which
  is not among the sources. Section 6 of the specification gives its contract:
  "fire-and-forget, non-blocking, failure silent to caller". So whether the delivery
  works or fails, the promise the caller awaits resolves.
\<close>

datatype delivery = Delivered | Failed

definition waitlistNotifier :: "delivery \<Rightarrow> outcome" where
  "waitlistNotifier d = (case d of Delivered \<Rightarrow> Resolves | Failed \<Rightarrow> Resolves)"

text \<open>
  A cancellation whose two table calls return no error, with the two waitlist
  deliveries and the promise of the admin notification as given.
\<close>

definition cancellationWith :: "delivery \<Rightarrow> delivery \<Rightarrow> outcome \<Rightarrow> World" where
  "cancellationWith slotDelivery serviceDelivery admin =
     \<lparr>selectFails = False, updateFails = False,
      slotWaitlist = waitlistNotifier slotDelivery,
      serviceWaitlist = waitlistNotifier serviceDelivery,
      adminNotification = admin\<rparr>"

datatype alert = CouldNotCancel

text \<open>
  The calls the screen makes to its collaborators, in order. The admin notification
  keeps the values interpolated into its text: who cancelled, the phone, the service,
  the date and the time. \<open>UnhandledRejection\<close> is a rejected promise that no handler
  takes: nothing awaits it, so it reaches no \<^verbatim>\<open>catch\<close> block and goes to the runtime.
\<close>

datatype effect =
    CheckWaitlistAndNotify AvailableTimeSlot
  | NotifyServiceWaitlistClients AvailableTimeSlot
  | CreateAdminNotification string string string string string
  | Alert alert
  | UnhandledRejection

text \<open>\<^verbatim>\<open>select('*').eq('id', slotId).single()\<close>: an error unless exactly one row has the id.\<close>

definition selectSingle :: "World \<Rightarrow> store \<Rightarrow> string \<Rightarrow> error + AvailableTimeSlot" where
  "selectSingle w db slotId =
     (if selectFails w then Inl QueryError
      else (case filter (\<lambda>r. slot_id r = slotId) db of
              [r] \<Rightarrow> Inr r
            | _ \<Rightarrow> Inl NoSingleRow))"

text \<open>
  \<^verbatim>\<open>update({...}).eq('id', slotId).eq('is_available', false)\<close>: the rows with the id
  that are booked become open slots. The call returns an error or nothing; the number of
  rows it changed is not part of what the source reads.
\<close>

definition freeSlot :: "AvailableTimeSlot \<Rightarrow> AvailableTimeSlot" where
  "freeSlot r = r\<lparr>is_available := True, client_name := None, client_phone := None,
                   service_name := None\<rparr>"

definition updateCancel :: "World \<Rightarrow> store \<Rightarrow> string \<Rightarrow> error + store" where
  "updateCancel w db slotId =
     (if updateFails w then Inl QueryError
      else Inr (map (\<lambda>r. if slot_id r = slotId \<and> \<not> is_available r then freeSlot r else r) db))"

text \<open>
  \<open>cancelAppointment\<close>: the result, the table afterwards and the notifier calls made.
  Both notifiers are awaited inside the \<^verbatim>\<open>try\<close> block, so a rejection lands in the
  \<^verbatim>\<open>catch\<close>, which returns \<^verbatim>\<open>false\<close>.
\<close>

definition cancelAppointment :: "World \<Rightarrow> store \<Rightarrow> string \<Rightarrow> bool \<times> store \<times> effect list" where
  "cancelAppointment w db slotId =
     (case selectSingle w db slotId of
        Inl fetchError \<Rightarrow> (False, db, [])
      | Inr appointmentData \<Rightarrow>
          (case updateCancel w db slotId of
             Inl e \<Rightarrow> (False, db, [])
           | Inr db' \<Rightarrow>
               (case slotWaitlist w of
                  Rejects \<Rightarrow> (False, db', [CheckWaitlistAndNotify appointmentData])
                | Resolves \<Rightarrow>
                    (case serviceWaitlist w of
                       Rejects \<Rightarrow>
                         (False, db', [CheckWaitlistAndNotify appointmentData,
                                       NotifyServiceWaitlistClients appointmentData])
                     | Resolves \<Rightarrow>
                         (True, db', [CheckWaitlistAndNotify appointmentData,
                                      NotifyServiceWaitlistClients appointmentData])))))"

text \<open>The two literals of the admin notification: "client" and "service" in Hebrew.\<close>

definition defaultClient :: string where
  "defaultClient = [CHR 0xD7, CHR 0x9C, CHR 0xD7, CHR 0xA7, CHR 0xD7, CHR 0x95, CHR 0xD7, CHR 0x97]"

definition defaultService :: string where
  "defaultService = [CHR 0xD7, CHR 0xA9, CHR 0xD7, CHR 0x99, CHR 0xD7, CHR 0xA8, CHR 0xD7, CHR 0x95,
                     CHR 0xD7, CHR 0xAA]"

text \<open>\<^verbatim>\<open>promise.catch(() => {})\<close>: whatever the promise does, the result resolves.\<close>

definition catchIgnore :: "outcome \<Rightarrow> outcome" where
  "catchIgnore p = (case p of Resolves \<Rightarrow> Resolves | Rejects \<Rightarrow> Resolves)"

definition adminEffect :: "User \<Rightarrow> AvailableTimeSlot \<Rightarrow> effect" where
  "adminEffect user sel =
     CreateAdminNotification
       (orElse (name user) (orElse (client_name sel) defaultClient))
       (orElse (phone user) (orElse (client_phone sel) []))
       (orElse (service_name sel) defaultService)
       (slot_date sel)
       (slot_time sel)"

text \<open>
  \<open>confirmCancelAppointment\<close>: the screen and the table afterwards, and every call
  made. \<open>cancelAppointment\<close> catches whatever is thrown, so the \<^verbatim>\<open>catch\<close> of this
  function is never entered by it. The promise of the admin notification is not
  awaited: what is left of it after \<^verbatim>\<open>.catch(() => {})\<close> is dropped, and a rejection
  left over would be unhandled.
\<close>

definition confirmCancelAppointment ::
    "World \<Rightarrow> User \<Rightarrow> store \<Rightarrow> Screen \<Rightarrow> Screen \<times> store \<times> effect list" where
  "confirmCancelAppointment w user db s =
     (case selectedAppointment s of
        None \<Rightarrow> (s, db, [])
      | Some sel \<Rightarrow>
          (case cancelAppointment w db (slot_id sel) of
             (success, db', effs) \<Rightarrow>
               (if success then
                  (let settled = catchIgnore (adminNotification w)
                   in (s\<lparr>userAppointments :=
                            filter (\<lambda>apt. slot_id apt \<noteq> slot_id sel) (userAppointments s),
                          showCancelModal := False,
                          selectedAppointment := None,
                          isCanceling := False\<rparr>,
                       db',
                       effs @ [adminEffect user sel]
                            @ (case settled of Resolves \<Rightarrow> [] | Rejects \<Rightarrow> [UnhandledRejection])))
                else (s\<lparr>isCanceling := False\<rparr>, db', effs @ [Alert CouldNotCancel]))))"

text \<open>What the user is told by a run of \<open>confirmCancelAppointment\<close>: an alert, or none.\<close>

definition alerts :: "effect list \<Rightarrow> alert list" where
  "alerts effs = concat (map (\<lambda>e. case e of Alert a \<Rightarrow> [a] | _ \<Rightarrow> []) effs)"

text \<open>
  The three views of the screen for a user at a given \<open>today\<close>: upcoming, past and
  next.
\<close>

definition views ::
    "int \<Rightarrow> int \<Rightarrow> User \<Rightarrow> AvailableTimeSlot list
      \<Rightarrow> AvailableTimeSlot list \<times> AvailableTimeSlot list \<times> AvailableTimeSlot option" where
  "views tz today user appts =
     (let verified = verifiedUserAppointments user appts;
          upcoming = upcomingAppointments tz today verified
      in (upcoming, pastAppointments tz today verified, nextAppointment tz upcoming))"

subsection \<open>The composed timestamp in the words of the specification\<close>

text \<open>
  The ordering key as the specification words it: the date with the time, and
  \<^verbatim>\<open>00:00\<close> in place of a time that is missing or not a full \<^verbatim>\<open>HH:mm\<close> or
  \<^verbatim>\<open>HH:mm:ss\<close>.
\<close>

definition specTimestamp :: "int \<Rightarrow> AvailableTimeSlot \<Rightarrow> int option" where
  "specTimestamp tz a =
     (case parseTimePart (slot_time a) of
        Some t \<Rightarrow> Date_parse tz (slot_date a @ ''T'' @ slot_time a)
      | None \<Rightarrow> Date_parse tz (slot_date a @ ''T00:00''))"

text \<open>
  The time of day of an appointment as the specification words it for the 48-hour rule:
  the hour and the minute of the time, each padded with zeros to two digits, and
  \<^verbatim>\<open>00:00\<close> when the time is missing. \<open>pieceVal\<close> is the number a piece of at most
  two digits stands for once padded (the empty piece is \<^verbatim>\<open>00\<close>); seconds are not
  used. The result is in milliseconds since midnight.
\<close>

definition pieceVal :: "string \<Rightarrow> int option" where
  "pieceVal p =
     (if length p \<le> 2 \<and> list_all isDigit p
      then Some (foldl (\<lambda>acc c. 10 * acc + (int (of_char c) - 48)) 0 p)
      else None)"

definition clockTime :: "string \<Rightarrow> int option" where
  "clockTime time =
     (let t = (if time = [] then ''00:00'' else time);
          hourPiece = takeWhile (\<lambda>c. c \<noteq> CHR '':'') t;
          minutePiece = takeWhile (\<lambda>c. c \<noteq> CHR '':'')
                          (drop 1 (dropWhile (\<lambda>c. c \<noteq> CHR '':'') t))
      in (case (pieceVal hourPiece, pieceVal minutePiece) of
            (Some h, Some m) \<Rightarrow>
              (if (h \<le> 23 \<and> m \<le> 59) \<or> (h = 24 \<and> m = 0)
               then Some (h * 3600000 + m * 60000) else None)
          | _ \<Rightarrow> None))"

subsection \<open>Sample data\<close>

text \<open>
  A device two hours ahead of UTC (\<open>tz = 120\<close>). The instants used below:
  \<open>1704060000000\<close> is 2024-01-01T00:00 local time, \<open>1704146400000\<close> is
  2024-01-02T00:00, \<open>1704232800000\<close> is 2024-01-03T00:00, \<open>1704837600000\<close> is
  2024-01-10T00:00 and \<open>1704841200000\<close> is 2024-01-10T01:00 local time, which is
  2024-01-09T23:00Z. \<open>1704267000000\<close> is 2024-01-03T09:30 local time and
  \<open>1704094200000\<close> is 48 hours before it. Day \<open>19725\<close> is 2024-01-03.
\<close>

definition dana :: User where
  "dana = \<lparr>name = Some ''Dana Cohen'', phone = None\<rparr>"

definition danaFull :: User where
  "danaFull = \<lparr>name = Some ''Dana Cohen'', phone = Some ''0501234567 ''\<rparr>"

definition nobody :: User where
  "nobody = \<lparr>name = None, phone = Some []\<rparr>"

definition danaNoPhone :: User where
  "danaNoPhone = \<lparr>name = Some ''Dana'', phone = Some []\<rparr>"

definition danaBooked :: AvailableTimeSlot where
  "danaBooked = \<lparr>slot_id = ''a1'', slot_date = ''2024-01-03'', slot_time = ''14:30'',
     is_available = False, client_name = Some '' dana cohen'', client_phone = Some ''0501234567'',
     service_name = Some ''Gel''\<rparr>"

definition phoneOnly :: AvailableTimeSlot where
  "phoneOnly = \<lparr>slot_id = ''a4'', slot_date = ''2024-01-04'', slot_time = ''09:00'',
     is_available = False, client_name = Some ''D. C.'', client_phone = Some '' 0501234567'',
     service_name = Some ''Gel''\<rparr>"

definition stranger :: AvailableTimeSlot where
  "stranger = \<lparr>slot_id = ''a5'', slot_date = ''2024-01-04'', slot_time = ''10:00'',
     is_available = False, client_name = Some ''Noa Levi'', client_phone = Some ''0520000000'',
     service_name = Some ''Gel''\<rparr>"

definition namesake :: AvailableTimeSlot where
  "namesake = \<lparr>slot_id = ''a6'', slot_date = ''2024-01-04'', slot_time = ''11:00'',
     is_available = False, client_name = Some ''Dana Levi'', client_phone = Some [],
     service_name = Some ''Gel''\<rparr>"

definition openSlot :: AvailableTimeSlot where
  "openSlot = \<lparr>slot_id = ''a2'', slot_date = ''2024-01-03'', slot_time = ''14:30'',
     is_available = True, client_name = Some ''Dana Cohen'', client_phone = None,
     service_name = None\<rparr>"

definition freedSlot :: AvailableTimeSlot where
  "freedSlot = \<lparr>slot_id = ''a1'', slot_date = ''2024-01-03'', slot_time = ''14:30'',
     is_available = True, client_name = None, client_phone = None, service_name = None\<rparr>"

definition noDate :: AvailableTimeSlot where
  "noDate = \<lparr>slot_id = ''a3'', slot_date = [], slot_time = ''14:30'',
     is_available = False, client_name = Some ''Dana Cohen'', client_phone = None,
     service_name = Some ''Gel''\<rparr>"

definition at0800 :: AvailableTimeSlot where
  "at0800 = \<lparr>slot_id = ''b1'', slot_date = ''2024-01-03'', slot_time = ''08:00'',
     is_available = False, client_name = Some ''Dana Cohen'', client_phone = None,
     service_name = Some ''Gel''\<rparr>"

definition at930 :: AvailableTimeSlot where
  "at930 = \<lparr>slot_id = ''b2'', slot_date = ''2024-01-03'', slot_time = ''9:30'',
     is_available = False, client_name = Some ''Dana Cohen'', client_phone = None,
     service_name = Some ''Gel''\<rparr>"

definition noTime :: AvailableTimeSlot where
  "noTime = \<lparr>slot_id = ''b3'', slot_date = ''2024-01-03'', slot_time = [],
     is_available = False, client_name = Some ''Dana Cohen'', client_phone = None,
     service_name = Some ''Gel''\<rparr>"

definition eightDaysAgo :: AvailableTimeSlot where
  "eightDaysAgo = \<lparr>slot_id = ''c1'', slot_date = ''2024-01-02'', slot_time = ''10:00'',
     is_available = False, client_name = Some ''Dana Cohen'', client_phone = None,
     service_name = Some ''Gel''\<rparr>"

definition fourteenAhead :: AvailableTimeSlot where
  "fourteenAhead = \<lparr>slot_id = ''c2'', slot_date = ''2024-01-24'', slot_time = ''10:00'',
     is_available = False, client_name = Some ''Dana Cohen'', client_phone = None,
     service_name = Some ''Gel''\<rparr>"

definition screen0 :: Screen where
  "screen0 = \<lparr>userAppointments = [], isLoading = True, refreshing = False,
     showCancelModal = False, showLateCancelModal = False, selectedAppointment = None,
     isCanceling = False\<rparr>"

definition cancelling :: Screen where
  "cancelling = \<lparr>userAppointments = [danaBooked], isLoading = False, refreshing = False,
     showCancelModal = True, showLateCancelModal = False, selectedAppointment = Some danaBooked,
     isCanceling = False\<rparr>"

definition calm :: World where
  "calm = \<lparr>selectFails = False, updateFails = False, slotWaitlist = Resolves,
     serviceWaitlist = Resolves, adminNotification = Resolves\<rparr>"


section \<open>Properties\<close>

subsection \<open>Ownership and the empty identity\<close>

lemma fetch_bookedWith:
  assumes "getUserAppointmentsForMultipleDatesWith tr lc like qf db dates un up = Inr fetched"
  shows "\<forall>x\<in>set fetched. \<not> is_available x \<and> slot_date x \<in> set dates \<and> x \<in> set db"
  using assms
  by (auto simp: getUserAppointmentsForMultipleDatesWith_def Let_def split: if_splits)

lemma fetch_booked:
  assumes "getUserAppointmentsForMultipleDates qf db dates un up = Inr fetched"
  shows "\<forall>x\<in>set fetched. \<not> is_available x \<and> slot_date x \<in> set dates \<and> x \<in> set db"
  using assms fetch_bookedWith unfolding getUserAppointmentsForMultipleDates_def by blast

lemma fetch_ownedWith:
  assumes "getUserAppointmentsForMultipleDatesWith tr lc like qf db dates (name user) (phone user)
             = Inr fetched"
    and "truthy (name user) \<or> truthy (phone user)"
  shows "\<forall>x\<in>set fetched. nameMatchWith tr lc (client_name x) (name user)
                            \<or> phoneMatchWith tr (client_phone x) (phone user)"
  using assms
  by (auto simp: getUserAppointmentsForMultipleDatesWith_def Let_def split: if_splits)

lemma nameMatchWith_iff:
  "nameMatchWith tr lc (client_name r) (name user) \<longleftrightarrow>
     (\<exists>c u. client_name r = Some c \<and> c \<noteq> [] \<and> name user = Some u \<and> u \<noteq> []
            \<and> lc (tr c) = lc (tr u))"
  by (auto simp: nameMatchWith_def split: option.splits)

lemma phoneMatchWith_iff:
  "phoneMatchWith tr (client_phone r) (phone user) \<longleftrightarrow>
     (\<exists>c u. client_phone r = Some c \<and> c \<noteq> [] \<and> phone user = Some u \<and> u \<noteq> []
            \<and> tr c = tr u)"
  by (auto simp: phoneMatchWith_def split: option.splits)

lemma verifiedWith_filter:
  "verifiedUserAppointmentsWith tr lc user appts =
     filter (\<lambda>slot. nameMatchWith tr lc (client_name slot) (name user)
                     \<or> phoneMatchWith tr (client_phone slot) (phone user)) appts"
proof (cases "\<not> truthy (name user) \<and> \<not> truthy (phone user)")
  case True
  have "\<forall>slot\<in>set appts. \<not> (nameMatchWith tr lc (client_name slot) (name user)
                     \<or> phoneMatchWith tr (client_phone slot) (phone user))"
    using True
    by (auto simp: nameMatchWith_def phoneMatchWith_def truthy_def split: option.splits)
  then have "filter (\<lambda>slot. nameMatchWith tr lc (client_name slot) (name user)
                     \<or> phoneMatchWith tr (client_phone slot) (phone user)) appts = []"
    unfolding filter_empty_conv by blast
  then show ?thesis using True by (simp add: verifiedUserAppointmentsWith_def)
next
  case False
  then show ?thesis by (auto simp: verifiedUserAppointmentsWith_def)
qed

text \<open>
  Claim C7 (amended). Whatever the engine's \<^verbatim>\<open>trim\<close> (\<open>tr\<close>) and
  \<^verbatim>\<open>toLowerCase\<close> (\<open>lc\<close>) do, the client-side ownership filter keeps exactly the
  records of the list whose name and the identity's name are both present and not empty
  and are equal once trimmed and lower-cased, or whose phone and the identity's phone are
  both present and not empty and are equal once trimmed: either channel alone suffices.
  When no name or phone involved is the empty string, the records kept are exactly those
  that belong to the identity in the words of the specification. The filter is applied
  to whatever list the screen holds; on a list that the fetch has already filtered for
  this identity it keeps every record.
\<close>

theorem ownership_filter:
  "verifiedUserAppointmentsWith tr lc user appts =
     filter (\<lambda>r. (\<exists>c u. client_name r = Some c \<and> c \<noteq> [] \<and> name user = Some u \<and> u \<noteq> []
                        \<and> lc (tr c) = lc (tr u))
                \<or> (\<exists>c u. client_phone r = Some c \<and> c \<noteq> [] \<and> phone user = Some u \<and> u \<noteq> []
                        \<and> tr c = tr u)) appts
   \<and> (client_name r \<noteq> Some [] \<and> client_phone r \<noteq> Some []
        \<and> name user \<noteq> Some [] \<and> phone user \<noteq> Some []
       \<longrightarrow> (r \<in> set (verifiedUserAppointmentsWith tr lc user appts)
              \<longleftrightarrow> r \<in> set appts \<and> belongsToWith tr lc user r))
   \<and> (getUserAppointmentsForMultipleDatesWith tr lc like qf db dates (name user) (phone user)
          = Inr fetched
        \<and> (truthy (name user) \<or> truthy (phone user))
       \<longrightarrow> verifiedUserAppointmentsWith tr lc user fetched = fetched)
   \<and> verifiedUserAppointments user appts = verifiedUserAppointmentsWith trim toLowerCase user appts"
proof (intro conjI impI)
  show "verifiedUserAppointmentsWith tr lc user appts =
     filter (\<lambda>r. (\<exists>c u. client_name r = Some c \<and> c \<noteq> [] \<and> name user = Some u \<and> u \<noteq> []
                        \<and> lc (tr c) = lc (tr u))
                \<or> (\<exists>c u. client_phone r = Some c \<and> c \<noteq> [] \<and> phone user = Some u \<and> u \<noteq> []
                        \<and> tr c = tr u)) appts"
    unfolding verifiedWith_filter nameMatchWith_iff phoneMatchWith_iff ..
next
  assume ne: "client_name r \<noteq> Some [] \<and> client_phone r \<noteq> Some []
              \<and> name user \<noteq> Some [] \<and> phone user \<noteq> Some []"
  have "nameMatchWith tr lc (client_name r) (name user)
          \<or> phoneMatchWith tr (client_phone r) (phone user) \<longleftrightarrow> belongsToWith tr lc user r"
    unfolding nameMatchWith_iff phoneMatchWith_iff belongsToWith_def using ne by auto
  then show "r \<in> set (verifiedUserAppointmentsWith tr lc user appts)
              \<longleftrightarrow> r \<in> set appts \<and> belongsToWith tr lc user r"
    unfolding verifiedWith_filter by auto
next
  assume a: "getUserAppointmentsForMultipleDatesWith tr lc like qf db dates (name user) (phone user)
               = Inr fetched \<and> (truthy (name user) \<or> truthy (phone user))"
  have "\<forall>x\<in>set fetched. nameMatchWith tr lc (client_name x) (name user)
                            \<or> phoneMatchWith tr (client_phone x) (phone user)"
    using a fetch_ownedWith by blast
  then show "verifiedUserAppointmentsWith tr lc user fetched = fetched"
    unfolding verifiedWith_filter by simp
next
  show "verifiedUserAppointments user appts = verifiedUserAppointmentsWith trim toLowerCase user appts"
    by (simp add: verifiedUserAppointments_def)
qed

theorem ownership_filter_witness:
  "verifiedUserAppointments danaFull [danaBooked, stranger, phoneOnly] = [danaBooked, phoneOnly]
   \<and> client_name phoneOnly \<noteq> Some [] \<and> client_phone phoneOnly \<noteq> Some []
   \<and> name danaFull \<noteq> Some [] \<and> phone danaFull \<noteq> Some []
   \<and> belongsToWith trim toLowerCase danaFull phoneOnly
   \<and> getUserAppointmentsForMultipleDatesWith trim toLowerCase nameLike False
        [stranger, openSlot, danaBooked] [''2024-01-03''] (name dana) (phone dana) = Inr [danaBooked]
   \<and> (truthy (name dana) \<or> truthy (phone dana))
   \<and> verifiedUserAppointmentsWith trim toLowerCase dana [danaBooked] = [danaBooked]"
proof -
  note thm1 = ownership_filter[of trim toLowerCase danaFull "[danaBooked, stranger, phoneOnly]"
      phoneOnly]
  note thm2 = ownership_filter[of trim toLowerCase dana "[]" danaBooked nameLike False
      "[stranger, openSlot, danaBooked]" "[''2024-01-03'']" "[danaBooked]"]
  have 1: "verifiedUserAppointments danaFull [danaBooked, stranger, phoneOnly]
             = [danaBooked, phoneOnly]"
    by code_simp
  have n: "client_name phoneOnly \<noteq> Some [] \<and> client_phone phoneOnly \<noteq> Some []
           \<and> name danaFull \<noteq> Some [] \<and> phone danaFull \<noteq> Some []"
    by (simp add: phoneOnly_def danaFull_def)
  have 2: "getUserAppointmentsForMultipleDatesWith trim toLowerCase nameLike False
        [stranger, openSlot, danaBooked] [''2024-01-03''] (name dana) (phone dana) = Inr [danaBooked]"
    by code_simp
  have 3: "truthy (name dana) \<or> truthy (phone dana)"
    by (simp add: dana_def truthy_def)
  have v: "verifiedUserAppointments danaFull [danaBooked, stranger, phoneOnly]
             = verifiedUserAppointmentsWith trim toLowerCase danaFull [danaBooked, stranger, phoneOnly]"
    using thm1 by blast
  have "phoneOnly \<in> set (verifiedUserAppointmentsWith trim toLowerCase danaFull
                            [danaBooked, stranger, phoneOnly])"
    using 1 v by simp
  then have b: "belongsToWith trim toLowerCase danaFull phoneOnly"
    using thm1 n by blast
  have c: "verifiedUserAppointmentsWith trim toLowerCase dana [danaBooked] = [danaBooked]"
    using thm2 2 3 by blast
  show ?thesis using 1 n 2 3 b c by simp
qed

text \<open>
  The claim as stated fails on the empty string. The identity has the name Dana and an
  empty phone; the booking is of Dana Levi, with an empty phone. The trimmed phones are
  equal, so the record belongs to the identity in the words of the specification. The
  table returns the row, because the name pattern matches it, and both client-side
  filters drop it: an empty string is falsy, and the names differ.
\<close>

theorem empty_phone_counterexample:
  "client_phone namesake = Some [] \<and> phone danaNoPhone = Some [] \<and> trim [] = []
   \<and> belongsTo danaNoPhone namesake
   \<and> serverUserFilterWith trim nameLike (name danaNoPhone) (phone danaNoPhone) namesake
   \<and> getUserAppointmentsForMultipleDates False [namesake] [''2024-01-04'']
         (name danaNoPhone) (phone danaNoPhone) = Inr []
   \<and> verifiedUserAppointments danaNoPhone [namesake] = []"
proof -
  have 1: "client_phone namesake = Some [] \<and> phone danaNoPhone = Some [] \<and> trim [] = []"
    by (simp add: namesake_def danaNoPhone_def trim_def)
  have 2: "belongsTo danaNoPhone namesake"
    using 1 by (simp add: belongsTo_def belongsToWith_def)
  have 3: "serverUserFilterWith trim nameLike (name danaNoPhone) (phone danaNoPhone) namesake"
    by code_simp
  have 4: "getUserAppointmentsForMultipleDates False [namesake] [''2024-01-04'']
         (name danaNoPhone) (phone danaNoPhone) = Inr []"
    by code_simp
  have 5: "verifiedUserAppointments danaNoPhone [namesake] = []"
    by code_simp
  show ?thesis using 1 2 3 4 5 by simp
qed

text \<open>
  Claim C8. For an identity with neither a name nor a phone (each missing or empty),
  the views are: upcoming empty, past empty, next absent, whatever records the screen
  holds. The result is a value, not an error.
\<close>

theorem no_identity_no_views:
  "\<not> truthy (name user) \<Longrightarrow> \<not> truthy (phone user) \<Longrightarrow>
     views tz today user appts = ([], [], None)"
  by (simp add: views_def verifiedUserAppointments_def verifiedUserAppointmentsWith_def
      upcomingAppointments_def pastAppointments_def nextAppointment_def)

theorem no_identity_no_views_witness:
  "\<not> truthy (name nobody) \<and> \<not> truthy (phone nobody)
   \<and> views 120 1704146400000 nobody [danaBooked, openSlot] = ([], [], None)"
proof -
  have 1: "\<not> truthy (name nobody)" by (simp add: nobody_def truthy_def)
  have 2: "\<not> truthy (phone nobody)" by (simp add: nobody_def truthy_def)
  show ?thesis using 1 2 no_identity_no_views[OF 1 2] by simp
qed

subsection \<open>The 48-hour rule\<close>

text \<open>
  Claim C9. For an appointment whose date is missing, the 48-hour check answers that
  the appointment is not within the protected window, and the cancel handler opens the
  confirmation dialog (the Confirmable state) rather than the late-cancel dialog.
\<close>

theorem missing_date_confirmable:
  "slot_date a = [] \<Longrightarrow>
     \<not> isWithin48Hours tz now a
     \<and> handleCancelAppointment tz now a s
         = s\<lparr>selectedAppointment := Some a, showCancelModal := True\<rparr>"
  by (simp add: isWithin48Hours_def handleCancelAppointment_def)

theorem missing_date_confirmable_witness:
  "slot_date noDate = [] \<and> \<not> isWithin48Hours 120 1704060000000 noDate
   \<and> handleCancelAppointment 120 1704060000000 noDate screen0
       = screen0\<lparr>selectedAppointment := Some noDate, showCancelModal := True\<rparr>"
proof -
  have 1: "slot_date noDate = []" by (simp add: noDate_def)
  show ?thesis using 1 missing_date_confirmable[OF 1] by simp
qed

lemma splitColon_unfold:
  "splitColon t = takeWhile (\<lambda>c. c \<noteq> CHR '':'') t
     # (case dropWhile (\<lambda>c. c \<noteq> CHR '':'') t of [] \<Rightarrow> [] | x # rest \<Rightarrow> splitColon rest)"
  by (induction t) (auto split: list.splits)

lemma hourPiece_eq:
  "(case splitColon t of h # _ \<Rightarrow> h | _ \<Rightarrow> ''00'') = takeWhile (\<lambda>c. c \<noteq> CHR '':'') t"
  by (subst splitColon_unfold) simp

lemma minutePiece_eq:
  "(case splitColon t of _ # m # _ \<Rightarrow> m | _ \<Rightarrow> ''00'')
     = (if dropWhile (\<lambda>c. c \<noteq> CHR '':'') t = [] then ''00''
        else takeWhile (\<lambda>c. c \<noteq> CHR '':'') (drop 1 (dropWhile (\<lambda>c. c \<noteq> CHR '':'') t)))"
proof (cases "dropWhile (\<lambda>c. c \<noteq> CHR '':'') t")
  case Nil
  have "splitColon t = [takeWhile (\<lambda>c. c \<noteq> CHR '':'') t]"
    by (subst splitColon_unfold) (simp only: Nil list.case)
  then show ?thesis using Nil by (simp del: dropWhile_eq_Nil_conv)
next
  case (Cons x rest)
  have "splitColon rest = takeWhile (\<lambda>c. c \<noteq> CHR '':'') rest
     # (case dropWhile (\<lambda>c. c \<noteq> CHR '':'') rest of [] \<Rightarrow> [] | x # r \<Rightarrow> splitColon r)"
    by (rule splitColon_unfold)
  then have "splitColon t = takeWhile (\<lambda>c. c \<noteq> CHR '':'') t
     # takeWhile (\<lambda>c. c \<noteq> CHR '':'') rest
     # (case dropWhile (\<lambda>c. c \<noteq> CHR '':'') rest of [] \<Rightarrow> [] | x # r \<Rightarrow> splitColon r)"
    by (subst splitColon_unfold) (simp only: Cons list.case)
  then show ?thesis using Cons by (simp del: dropWhile_eq_Nil_conv)
qed

lemma isDigit_zero: "isDigit (CHR ''0'')"
  by (simp add: isDigit_def)

lemma padded_short:
  assumes "length p \<le> 2"
  shows "length (padStart2 p) = 2 \<and> digitsVal (padStart2 p) = pieceVal p"
proof -
  consider "p = []" | a where "p = [a]" | a b where "p = [a, b]"
  proof (cases p)
    case Nil
    then show ?thesis using that by simp
  next
    case (Cons a q)
    show ?thesis
    proof (cases q)
      case Nil
      then show ?thesis using Cons that by simp
    next
      case (Cons b q')
      then have "q' = []" using assms \<open>p = a # q\<close> by simp
      then show ?thesis using Cons \<open>p = a # q\<close> that by simp
    qed
  qed
  then show ?thesis
  proof cases
    case 1
    then show ?thesis
      by (simp add: padStart2_def digitsVal_def pieceVal_def isDigit_def numeral_2_eq_2)
  next
    case 2
    then show ?thesis
      by (simp add: padStart2_def digitsVal_def pieceVal_def isDigit_def numeral_2_eq_2)
  next
    case 3
    then show ?thesis by (simp add: padStart2_def digitsVal_def pieceVal_def)
  qed
qed

lemma padded_long:
  assumes "2 < length p"
  shows "padStart2 p = p \<and> pieceVal p = None"
  using assms by (simp add: padStart2_def pieceVal_def)

lemma padded_time:
  assumes h: "CHR '':'' \<notin> set h" and m: "CHR '':'' \<notin> set m"
  shows "parseTimePart (padStart2 h @ '':'' @ padStart2 m)
           = (case (pieceVal h, pieceVal m) of
                (Some H, Some M) \<Rightarrow> timeOfDay H M 0 0
              | _ \<Rightarrow> None)"
proof (cases "length h \<le> 2")
  case hs: True
  have ph: "length (padStart2 h) = 2" "digitsVal (padStart2 h) = pieceVal h"
    using padded_short[OF hs] by simp_all
  show ?thesis
  proof (cases "length m \<le> 2")
    case ms: True
    have pm: "length (padStart2 m) = 2" "digitsVal (padStart2 m) = pieceVal m"
      using padded_short[OF ms] by simp_all
    obtain a b where ab: "padStart2 h = [a, b]"
      using ph(1) by (metis (no_types) length_0_conv length_Suc_conv numeral_2_eq_2)
    obtain c d where cd: "padStart2 m = [c, d]"
      using pm(1) by (metis (no_types) length_0_conv length_Suc_conv numeral_2_eq_2)
    have "parseTimePart ([a, b] @ '':'' @ [c, d])
            = (case (digitsVal [a, b], digitsVal [c, d]) of
                 (Some H, Some M) \<Rightarrow> timeOfDay H M 0 0
               | _ \<Rightarrow> None)"
      by (simp add: parseTimePart_def)
    then show ?thesis using ph(2) pm(2) unfolding ab cd by simp
  next
    case ml: False
    then have lm: "2 < length m" by simp
    have pm: "padStart2 m = m" "pieceVal m = None" using padded_long[OF lm] by simp_all
    obtain a b where ab: "padStart2 h = [a, b]"
      using ph(1) by (metis (no_types) length_0_conv length_Suc_conv numeral_2_eq_2)
    have "m ! 2 \<in> set m" using lm by simp
    then have n5: "([a, b] @ '':'' @ m) ! 5 \<noteq> CHR '':''"
      using m by (auto simp: nth_append nth_Cons' numeral_eq_Suc)
    have l5: "length ([a, b] @ '':'' @ m) \<noteq> 5" using lm by simp
    have "parseTimePart ([a, b] @ '':'' @ m) = None"
      unfolding parseTimePart_def using n5 l5 by simp
    then show ?thesis unfolding ab pm by (simp split: option.splits)
  qed
next
  case hl: False
  then have lh: "2 < length h" by simp
  have ph: "padStart2 h = h" "pieceVal h = None" using padded_long[OF lh] by simp_all
  have "h ! 2 \<in> set h" using lh by simp
  moreover have "(h @ '':'' @ padStart2 m) ! 2 = h ! 2" using lh by (simp add: nth_append)
  ultimately have n2: "(h @ '':'' @ padStart2 m) ! 2 \<noteq> CHR '':''"
    using h by metis
  have "parseTimePart (h @ '':'' @ padStart2 m) = None"
    unfolding parseTimePart_def using n2 by simp
  then show ?thesis unfolding ph by simp
qed

lemma pieceVal_default: "pieceVal ''00'' = pieceVal []"
  by (simp add: pieceVal_def isDigit_def)

lemma parsed_date_length: "parseDatePart D = Some d \<Longrightarrow> length D = 10"
  by (simp add: parseDatePart_def split: if_splits)

lemma Date_parse_dateTime:
  assumes "parseDatePart D = Some d"
  shows "Date_parse tz (D @ ''T'' @ P)
           = map_option (\<lambda>c. d * msPerDay + c - tz * msPerMinute) (parseTimePart P)"
proof -
  have l: "length D = 10" using assms by (rule parsed_date_length)
  have t: "(D @ ''T'' @ P) ! 10 = CHR ''T''" using l by (simp add: nth_append)
  show ?thesis
    unfolding Date_parse_def using l t assms by (simp split: option.splits)
qed

lemma appointmentDateTime_clock:
  assumes "parseDatePart (slot_date a) = Some d"
  shows "appointmentDateTime tz a
           = map_option (\<lambda>c. d * msPerDay + c - tz * msPerMinute) (clockTime (slot_time a))"
proof -
  define t where "t = (if slot_time a \<noteq> [] then slot_time a else ''00:00'')"
  define hh where "hh = takeWhile (\<lambda>c. c \<noteq> CHR '':'') t"
  define rest where "rest = dropWhile (\<lambda>c. c \<noteq> CHR '':'') t"
  define mm where "mm = (if rest = [] then ''00'' else takeWhile (\<lambda>c. c \<noteq> CHR '':'') (drop 1 rest))"
  have ch: "CHR '':'' \<notin> set hh" unfolding hh_def by (auto dest: set_takeWhileD)
  have cm: "CHR '':'' \<notin> set mm" unfolding mm_def by (auto dest: set_takeWhileD)
  have adt: "appointmentDateTime tz a
               = Date_parse tz (slot_date a @ ''T'' @ (padStart2 hh @ '':'' @ padStart2 mm))"
    unfolding appointmentDateTime_def Let_def hourPiece_eq minutePiece_eq
      t_def hh_def mm_def rest_def by simp
  have pm: "pieceVal mm = pieceVal (takeWhile (\<lambda>c. c \<noteq> CHR '':'') (drop 1 rest))"
    unfolding mm_def using pieceVal_default by simp
  have ct: "clockTime (slot_time a)
              = (case (pieceVal hh, pieceVal (takeWhile (\<lambda>c. c \<noteq> CHR '':'') (drop 1 rest))) of
                   (Some h, Some m) \<Rightarrow>
                     (if (h \<le> 23 \<and> m \<le> 59) \<or> (h = 24 \<and> m = 0)
                      then Some (h * 3600000 + m * 60000) else None)
                 | _ \<Rightarrow> None)"
    unfolding clockTime_def Let_def t_def hh_def rest_def by auto
  have "parseTimePart (padStart2 hh @ '':'' @ padStart2 mm) = clockTime (slot_time a)"
    unfolding padded_time[OF ch cm] ct pm
    by (simp add: timeOfDay_def split: option.splits)
  then show ?thesis
    unfolding adt Date_parse_dateTime[OF assms] by simp
qed

text \<open>
  Claim C4. For every appointment whose date is a calendar date (day number \<open>d\<close>) and
  every current time: the date-time of the 48-hour check is the local time made of that
  date and of the appointment's clock time, that is the hour and the minute of its time,
  each padded with zeros to two digits, \<^verbatim>\<open>00:00\<close> when the time is missing. The
  appointment is within the protected window exactly when that date-time exists and
  \<open>(dateTime - now) / 1 hour < 48\<close>, a strict comparison. So an appointment exactly 48
  hours away gets the confirmation dialog (Confirmable) and one less than 48 hours away
  gets the late-cancel dialog (WithinWindow).
\<close>

theorem within48_threshold:
  assumes "parseDatePart (slot_date a) = Some d"
  shows "appointmentDateTime tz a
           = map_option (\<lambda>c. d * msPerDay + c - tz * msPerMinute) (clockTime (slot_time a))
       \<and> (isWithin48Hours tz now a \<longleftrightarrow>
            (\<exists>c. clockTime (slot_time a) = Some c
               \<and> real_of_int (d * msPerDay + c - tz * msPerMinute - now) / (1000 * 60 * 60) < 48))
       \<and> (isWithin48Hours tz now a \<longleftrightarrow>
            (\<exists>c. clockTime (slot_time a) = Some c
               \<and> d * msPerDay + c - tz * msPerMinute - now < 48 * 3600000))
       \<and> handleCancelAppointment tz now a s =
           (if \<exists>c. clockTime (slot_time a) = Some c
                  \<and> d * msPerDay + c - tz * msPerMinute - now < 48 * 3600000
            then s\<lparr>selectedAppointment := Some a, showLateCancelModal := True\<rparr>
            else s\<lparr>selectedAppointment := Some a, showCancelModal := True\<rparr>)"
proof -
  note adt = appointmentDateTime_clock[OF assms]
  have ne: "slot_date a \<noteq> []" using parsed_date_length[OF assms] by auto
  have w: "isWithin48Hours tz now a \<longleftrightarrow>
            (\<exists>c. clockTime (slot_time a) = Some c
               \<and> real_of_int (d * msPerDay + c - tz * msPerMinute - now) / (1000 * 60 * 60) < 48)"
    unfolding isWithin48Hours_def Let_def adt using ne
    by (cases "clockTime (slot_time a)") simp_all
  have i: "\<And>x::int. real_of_int x / (1000 * 60 * 60) < 48 \<longleftrightarrow> x < 48 * 3600000"
  proof -
    fix x :: int
    have "real_of_int x / (1000 * 60 * 60) < 48 \<longleftrightarrow> real_of_int x < 172800000"
      by (simp add: field_simps)
    also have "\<dots> \<longleftrightarrow> x < 172800000" by linarith
    finally show "real_of_int x / (1000 * 60 * 60) < 48 \<longleftrightarrow> x < 48 * 3600000" by simp
  qed
  have w2: "isWithin48Hours tz now a \<longleftrightarrow>
            (\<exists>c. clockTime (slot_time a) = Some c
               \<and> d * msPerDay + c - tz * msPerMinute - now < 48 * 3600000)"
    unfolding w i ..
  have hc: "handleCancelAppointment tz now a s =
           (if isWithin48Hours tz now a
            then s\<lparr>selectedAppointment := Some a, showLateCancelModal := True\<rparr>
            else s\<lparr>selectedAppointment := Some a, showCancelModal := True\<rparr>)"
    by (simp add: handleCancelAppointment_def Let_def)
  have hc2: "handleCancelAppointment tz now a s =
           (if \<exists>c. clockTime (slot_time a) = Some c
                  \<and> d * msPerDay + c - tz * msPerMinute - now < 48 * 3600000
            then s\<lparr>selectedAppointment := Some a, showLateCancelModal := True\<rparr>
            else s\<lparr>selectedAppointment := Some a, showCancelModal := True\<rparr>)"
    unfolding hc w2 ..
  show ?thesis
    by (intro conjI) (rule adt, rule w, rule w2, rule hc2)
qed

theorem within48_threshold_witness:
  "parseDatePart (slot_date at930) = Some 19725
   \<and> clockTime (slot_time at930) = Some 34200000
   \<and> appointmentDateTime 120 at930 = Some 1704267000000
   \<and> \<not> isWithin48Hours 120 1704094200000 at930
   \<and> isWithin48Hours 120 1704094200001 at930
   \<and> handleCancelAppointment 120 1704094200000 at930 screen0
       = screen0\<lparr>selectedAppointment := Some at930, showCancelModal := True\<rparr>
   \<and> handleCancelAppointment 120 1704094200001 at930 screen0
       = screen0\<lparr>selectedAppointment := Some at930, showLateCancelModal := True\<rparr>"
proof -
  have 1: "parseDatePart (slot_date at930) = Some 19725" by code_simp
  have 2: "clockTime (slot_time at930) = Some 34200000" by code_simp
  show ?thesis
    using 1 2 within48_threshold[OF 1, of 120 1704094200000 screen0]
      within48_threshold[OF 1, of 120 1704094200001 screen0]
    by (simp add: msPerDay_def msPerMinute_def)
qed

subsection \<open>Sorting under a comparator\<close>

lemma set_insertBy: "set (insertBy cmp x xs) = insert x (set xs)"
  by (induction xs) auto

lemma set_sortBy: "set (sortBy cmp xs) = set xs"
  by (induction xs) (auto simp: set_insertBy)

lemma sortBy_Nil: "sortBy cmp xs = [] \<longleftrightarrow> xs = []"
  by (metis set_sortBy set_empty)

lemma sortBy_head_min:
  assumes "\<forall>a\<in>set xs. \<forall>b\<in>set xs. cmp a b = k a - k b"
    and "sortBy cmp xs = w # ws"
  shows "\<forall>x\<in>set xs. k w \<le> k x"
  using assms
proof (induction xs arbitrary: w ws)
  case Nil
  then show ?case by simp
next
  case (Cons x xs)
  show ?case
  proof (cases "sortBy cmp xs")
    case Nil
    then have "xs = []" by (simp add: sortBy_Nil)
    with Cons.prems show ?thesis by simp
  next
    case (Cons y ys)
    have ymin: "\<forall>z\<in>set xs. k y \<le> k z"
      using Cons.IH[OF _ Cons] Cons.prems(1) by simp
    have yin: "y \<in> set xs" using Cons set_sortBy[of cmp xs] by (metis list.set_intros(1))
    have cxy: "cmp x y = k x - k y" using Cons.prems(1) yin by simp
    show ?thesis
    proof (cases "cmp x y \<le> 0")
      case True
      then have "w = x" using Cons.prems(2) Cons by simp
      then show ?thesis using True cxy ymin by fastforce
    next
      case False
      then have "w = y" using Cons.prems(2) Cons by simp
      then show ?thesis using False cxy ymin by fastforce
    qed
  qed
qed

lemma nextAppointment_None: "nextAppointment tz ups = None \<longleftrightarrow> ups = []"
  by (auto simp: nextAppointment_def sortBy_Nil split: list.splits)

lemma nextAppointment_mem: "nextAppointment tz ups = Some n \<Longrightarrow> n \<in> set ups"
proof -
  assume a: "nextAppointment tz ups = Some n"
  then obtain w ws where s: "sortBy compareDateTime (map (\<lambda>a. (a, dateTimeOf tz a)) ups) = w # ws"
    and n: "n = fst w"
    by (auto simp: nextAppointment_def split: if_splits list.splits)
  have "w \<in> set (map (\<lambda>a. (a, dateTimeOf tz a)) ups)"
    using s set_sortBy[of compareDateTime "map (\<lambda>a. (a, dateTimeOf tz a)) ups"]
    by (metis list.set_intros(1))
  then show ?thesis using n by auto
qed

subsection \<open>The next appointment\<close>

text \<open>
  Claim C3 (amended). The next appointment is absent if and only if the upcoming list is
  empty. For a non-empty upcoming list in which every composed date-time parses, the
  next appointment is an element of the list with the least composed date-time, where a
  missing time is read as \<^verbatim>\<open>00:00\<close>. A time that is present is used as it is written.
\<close>

theorem next_is_minimum:
  assumes "\<forall>a\<in>set ups. dateTimeOf tz a \<noteq> None"
  shows "(nextAppointment tz ups = None \<longleftrightarrow> ups = [])
       \<and> (ups \<noteq> [] \<longrightarrow>
            (\<exists>n tn. nextAppointment tz ups = Some n \<and> n \<in> set ups \<and> dateTimeOf tz n = Some tn
               \<and> (\<forall>a\<in>set ups. \<exists>ta. dateTimeOf tz a = Some ta \<and> tn \<le> ta)))
       \<and> (\<forall>a. slot_time a = [] \<longrightarrow> dateTimeOf tz a = Date_parse tz (slot_date a @ ''T00:00''))"
proof (intro conjI impI allI)
  show "nextAppointment tz ups = None \<longleftrightarrow> ups = []" by (rule nextAppointment_None)
next
  fix a :: AvailableTimeSlot
  assume "slot_time a = []"
  then show "dateTimeOf tz a = Date_parse tz (slot_date a @ ''T00:00'')"
    by (simp add: dateTimeOf_def)
next
  assume ne: "ups \<noteq> []"
  let ?ws = "map (\<lambda>a. (a, dateTimeOf tz a)) ups"
  let ?k = "\<lambda>p :: AvailableTimeSlot \<times> int option. (case snd p of Some t \<Rightarrow> t | None \<Rightarrow> 0)"
  obtain w ws where s: "sortBy compareDateTime ?ws = w # ws"
    using ne by (cases "sortBy compareDateTime ?ws") (auto simp: sortBy_Nil)
  have nx: "nextAppointment tz ups = Some (fst w)"
    using ne s by (simp add: nextAppointment_def)
  have win: "w \<in> set ?ws"
    using s set_sortBy[of compareDateTime ?ws] by (metis list.set_intros(1))
  have valid: "\<forall>p\<in>set ?ws. \<exists>t. snd p = Some t"
    using assms by auto
  have cmp: "\<forall>a\<in>set ?ws. \<forall>b\<in>set ?ws. compareDateTime a b = ?k a - ?k b"
  proof (intro ballI)
    fix a b assume "a \<in> set ?ws" "b \<in> set ?ws"
    then obtain x y where "snd a = Some x" "snd b = Some y" using valid by blast
    then show "compareDateTime a b = ?k a - ?k b" by (simp add: compareDateTime_def)
  qed
  have min: "\<forall>p\<in>set ?ws. ?k w \<le> ?k p"
    by (rule sortBy_head_min[OF cmp s])
  obtain tn where tn: "snd w = Some tn" using valid win by blast
  have wn: "dateTimeOf tz (fst w) = Some tn" using win tn by auto
  have "\<forall>a\<in>set ups. \<exists>ta. dateTimeOf tz a = Some ta \<and> tn \<le> ta"
  proof
    fix a assume a: "a \<in> set ups"
    then obtain ta where ta: "dateTimeOf tz a = Some ta" using assms by blast
    have "(a, dateTimeOf tz a) \<in> set ?ws" using a by auto
    then have "?k w \<le> ?k (a, dateTimeOf tz a)" using min by blast
    then show "\<exists>ta. dateTimeOf tz a = Some ta \<and> tn \<le> ta" using ta tn by simp
  qed
  then show "\<exists>n tn. nextAppointment tz ups = Some n \<and> n \<in> set ups \<and> dateTimeOf tz n = Some tn
               \<and> (\<forall>a\<in>set ups. \<exists>ta. dateTimeOf tz a = Some ta \<and> tn \<le> ta)"
    using nx wn nextAppointment_mem[OF nx] by blast
qed


theorem next_is_minimum_witness:
  "dateTimeOf 120 at0800 = Some 1704261600000
   \<and> dateTimeOf 120 noTime = Some 1704232800000
   \<and> nextAppointment 120 [at0800, noTime] = Some noTime
   \<and> nextAppointment 120 [] = None"
proof -
  have t1: "dateTimeOf 120 at0800 = Some 1704261600000" by code_simp
  have t2: "dateTimeOf 120 noTime = Some 1704232800000" by code_simp
  have h: "\<forall>a\<in>set [at0800, noTime]. dateTimeOf 120 a \<noteq> None" using t1 t2 by simp
  have d: "at0800 \<noteq> noTime" by (simp add: at0800_def noTime_def)
  from next_is_minimum[OF h] obtain n tn where
    n: "nextAppointment 120 [at0800, noTime] = Some n" and m: "n \<in> set [at0800, noTime]"
    and tn: "dateTimeOf 120 n = Some tn"
    and le: "\<forall>a\<in>set [at0800, noTime]. \<exists>ta. dateTimeOf 120 a = Some ta \<and> tn \<le> ta"
    by auto
  have "n \<noteq> at0800"
  proof
    assume "n = at0800"
    then have "tn = 1704261600000" using tn t1 by simp
    moreover have "tn \<le> 1704232800000" using le t2 by auto
    ultimately show False by simp
  qed
  then have "n = noTime" using m by simp
  moreover have "nextAppointment 120 [] = None"
    using next_is_minimum[of "[]" 120] by simp
  ultimately show ?thesis using n t1 t2 by simp
qed

text \<open>
  The claim as stated fails for a time that is present but partial. With \<^verbatim>\<open>9:30\<close>
  read as \<^verbatim>\<open>00:00\<close> the second record would have the least timestamp; the next
  appointment is the first record, of 08:00. (The string \<^verbatim>\<open>2024-01-03T9:30\<close> is not
  of the date-time format, so its date is invalid here and the comparator answers
  \<^verbatim>\<open>NaN\<close>; an engine that accepts the string reads 09:30, with the same result.)
\<close>

theorem partial_time_counterexample:
  "nextAppointment 120 [at0800, at930] = Some at0800
   \<and> specTimestamp 120 at930 = Some 1704232800000
   \<and> specTimestamp 120 at0800 = Some 1704261600000"
  by code_simp

subsection \<open>Booked records only\<close>

lemma views_subset:
  "set (upcomingAppointments tz today (verifiedUserAppointments user appts)) \<subseteq> set appts"
  "set (pastAppointments tz today (verifiedUserAppointments user appts)) \<subseteq> set appts"
  by (auto simp: upcomingAppointments_def pastAppointments_def verifiedUserAppointments_def
      verifiedUserAppointmentsWith_def)

lemma load_keeps_booked:
  assumes "\<forall>x\<in>set (userAppointments s). \<not> is_available x"
  shows "\<forall>x\<in>set (userAppointments (loadUserAppointments qf today db user isRefresh s)).
           \<not> is_available x"
proof (cases "getUserAppointmentsForMultipleDates qf db (loadDates today) (name user) (phone user)")
  case (Inl e)
  then show ?thesis using assms by (simp add: loadUserAppointments_def Let_def)
next
  case (Inr fetched)
  then show ?thesis
    using assms fetch_booked[OF Inr] by (simp add: loadUserAppointments_def Let_def)
qed

lemma confirm_keeps_booked:
  assumes "\<forall>x\<in>set (userAppointments s). \<not> is_available x"
  shows "\<forall>x\<in>set (userAppointments (fst (confirmCancelAppointment w user db s))).
           \<not> is_available x"
  using assms
  by (auto simp: confirmCancelAppointment_def Let_def split: option.splits prod.splits)

text \<open>
  Claim C5. A record that is available never appears in what the screen shows: it is
  not in the list the fetch returns, whatever its name and phone, and so it is in none
  of the views (upcoming, past, next) computed from that list.
\<close>

theorem available_never_shown:
  assumes "is_available r"
    and "getUserAppointmentsForMultipleDates qf db dates (name user) (phone user) = Inr fetched"
  shows "r \<notin> set fetched
       \<and> r \<notin> set (upcomingAppointments tz today (verifiedUserAppointments user fetched))
       \<and> r \<notin> set (pastAppointments tz today (verifiedUserAppointments user fetched))
       \<and> nextAppointment tz (upcomingAppointments tz today (verifiedUserAppointments user fetched))
           \<noteq> Some r"
proof -
  have nf: "r \<notin> set fetched" using fetch_booked[OF assms(2)] assms(1) by blast
  have nu: "r \<notin> set (upcomingAppointments tz today (verifiedUserAppointments user fetched))"
    using nf views_subset(1)[of tz today user fetched] by blast
  have np: "r \<notin> set (pastAppointments tz today (verifiedUserAppointments user fetched))"
    using nf views_subset(2)[of tz today user fetched] by blast
  have nn: "nextAppointment tz (upcomingAppointments tz today (verifiedUserAppointments user fetched))
           \<noteq> Some r"
    using nu nextAppointment_mem by blast
  show ?thesis using nf nu np nn by simp
qed

theorem available_never_shown_witness:
  "is_available openSlot \<and> belongsTo dana openSlot
   \<and> getUserAppointmentsForMultipleDates False [openSlot, danaBooked] [''2024-01-03''] (name dana) (phone dana)
       = Inr [danaBooked]
   \<and> views 120 1704146400000 dana [danaBooked] = ([danaBooked], [], Some danaBooked)
   \<and> openSlot \<notin> set (upcomingAppointments 120 1704146400000 (verifiedUserAppointments dana [danaBooked]))
   \<and> openSlot \<notin> set (pastAppointments 120 1704146400000 (verifiedUserAppointments dana [danaBooked]))
   \<and> nextAppointment 120 (upcomingAppointments 120 1704146400000 (verifiedUserAppointments dana [danaBooked]))
       \<noteq> Some openSlot"
proof -
  have 1: "is_available openSlot" by (simp add: openSlot_def)
  have b: "belongsTo dana openSlot"
    by (simp add: belongsTo_def belongsToWith_def dana_def openSlot_def)
  have 2: "getUserAppointmentsForMultipleDates False [openSlot, danaBooked] [''2024-01-03'']
             (name dana) (phone dana) = Inr [danaBooked]"
    by code_simp
  have 3: "views 120 1704146400000 dana [danaBooked] = ([danaBooked], [], Some danaBooked)"
    by code_simp
  show ?thesis
    using 1 b 2 3 available_never_shown[OF 1 2, of 120 1704146400000] by simp
qed

subsection \<open>The calendar\<close>

lemma div_step:
  fixes x n :: int
  assumes "1 < n"
  shows "(x + 1) div n = x div n + (if (x + 1) mod n = 0 then 1 else 0)"
proof -
  define q where "q = x div n"
  define r where "r = x mod n"
  have x: "x = n * q + r" by (simp add: q_def r_def)
  have r: "0 \<le> r" "r < n" using assms by (simp_all add: r_def)
  show ?thesis
  proof (cases "r + 1 < n")
    case True
    have e: "x + 1 = n * q + (r + 1)" using x by simp
    have d: "(x + 1) div n = q" using int_div_pos_eq[OF e _ True] r by simp
    have m: "(x + 1) mod n = r + 1" using int_mod_pos_eq[OF e _ True] r by simp
    show ?thesis using d m r by (simp add: q_def)
  next
    case False
    then have rn: "r + 1 = n" using r by simp
    have e: "x + 1 = n * (q + 1) + 0" using x rn by (simp add: algebra_simps)
    have d: "(x + 1) div n = q + 1" using int_div_pos_eq[OF e] assms by simp
    have m: "(x + 1) mod n = 0" using int_mod_pos_eq[OF e] assms by simp
    show ?thesis using d m by (simp add: q_def)
  qed
qed

lemma mod_shift: "((y::int) - n * k) mod n = y mod n"
proof -
  have "y - n * k = y + n * (- k)" by simp
  then show ?thesis by (metis mod_mult_self2)
qed

lemma div_bounds:
  fixes x n :: int
  assumes "0 < n"
  shows "n * (x div n) \<le> x" and "x < n * (x div n) + n"
proof -
  have x: "x = n * (x div n) + x mod n" by simp
  have "0 \<le> x mod n" "x mod n < n" using assms by simp_all
  then show "n * (x div n) \<le> x" and "x < n * (x div n) + n" using x by linarith+
qed

text \<open>A year has 365 days, and one more when it is a leap year.\<close>

lemma year_length: "dayFromYear (y + 1) = dayFromYear y + 365 + leapDays y"
proof -
  define A where "A = (y - 1969) div 4"
  define B where "B = (y - 1901) div 100"
  define C where "C = (y - 1601) div 400"
  have m4: "(y - 1969 + 1) mod 4 = y mod 4"
    using mod_shift[of y 4 492] by (simp add: algebra_simps)
  have m100: "(y - 1901 + 1) mod 100 = y mod 100"
    using mod_shift[of y 100 19] by (simp add: algebra_simps)
  have m400: "(y - 1601 + 1) mod 400 = y mod 400"
    using mod_shift[of y 400 4] by (simp add: algebra_simps)
  have e4: "y + 1 - 1969 = y - 1969 + 1" and e100: "y + 1 - 1901 = y - 1901 + 1"
    and e400: "y + 1 - 1601 = y - 1601 + 1" by simp_all
  have a: "(y + 1 - 1969) div 4 = A + (if y mod 4 = 0 then 1 else 0)"
    unfolding e4 A_def using div_step[of 4 "y - 1969"] m4 by simp
  have b: "(y + 1 - 1901) div 100 = B + (if y mod 100 = 0 then 1 else 0)"
    unfolding e100 B_def using div_step[of 100 "y - 1901"] m100 by simp
  have c: "(y + 1 - 1601) div 400 = C + (if y mod 400 = 0 then 1 else 0)"
    unfolding e400 C_def using div_step[of 400 "y - 1601"] m400 by simp
  have d1: "y mod 400 = 0 \<Longrightarrow> y mod 100 = 0"
  proof -
    assume "y mod 400 = 0"
    then have "400 dvd y" by (simp add: dvd_eq_mod_eq_0)
    moreover have "(100::int) dvd 400" by simp
    ultimately have "100 dvd y" by (rule dvd_trans[rotated])
    then show ?thesis by (simp add: dvd_eq_mod_eq_0)
  qed
  have d2: "y mod 100 = 0 \<Longrightarrow> y mod 4 = 0"
  proof -
    assume "y mod 100 = 0"
    then have "100 dvd y" by (simp add: dvd_eq_mod_eq_0)
    moreover have "(4::int) dvd 100" by simp
    ultimately have "4 dvd y" by (rule dvd_trans[rotated])
    then show ?thesis by (simp add: dvd_eq_mod_eq_0)
  qed
  have l: "dayFromYear (y + 1) = 365 * (y + 1 - 1970) + (A + (if y mod 4 = 0 then 1 else 0))
       - (B + (if y mod 100 = 0 then 1 else 0)) + (C + (if y mod 400 = 0 then 1 else 0))"
    unfolding dayFromYear_def a b c ..
  have r: "dayFromYear y = 365 * (y - 1970) + A - B + C"
    unfolding dayFromYear_def A_def B_def C_def ..
  show ?thesis
  proof (cases "y mod 4 = 0")
    case False
    then have "y mod 100 \<noteq> 0" "y mod 400 \<noteq> 0" using d1 d2 by auto
    with False show ?thesis unfolding l r leapDays_def isLeapYear_def by simp
  next
    case T4: True
    show ?thesis
    proof (cases "y mod 100 = 0")
      case False
      then have "y mod 400 \<noteq> 0" using d1 by auto
      with T4 False show ?thesis unfolding l r leapDays_def isLeapYear_def by simp
    next
      case T100: True
      show ?thesis
        using T4 T100 unfolding l r leapDays_def isLeapYear_def by (cases "y mod 400 = 0") simp_all
    qed
  qed
qed

lemma dayFromYear_lower: "400 * dayFromYear y \<ge> 146097 * (y - 1970) - 506"
proof -
  define A where "A = (y - 1969) div 4"
  define B where "B = (y - 1901) div 100"
  define C where "C = (y - 1601) div 400"
  have a: "y - 1969 < 4 * A + 4" unfolding A_def using div_bounds(2)[of 4 "y - 1969"] by simp
  have b: "100 * B \<le> y - 1901" unfolding B_def using div_bounds(1)[of 100 "y - 1901"] by simp
  have c: "y - 1601 < 400 * C + 400" unfolding C_def using div_bounds(2)[of 400 "y - 1601"] by simp
  have r: "dayFromYear y = 365 * (y - 1970) + A - B + C"
    unfolding dayFromYear_def A_def B_def C_def ..
  have a': "400 * A \<ge> 100 * (y - 1969) - 300" using a by simp
  have b': "400 * B \<le> 4 * (y - 1901)" using b by simp
  have c': "400 * C \<ge> (y - 1601) - 399" using c by simp
  have "400 * dayFromYear y = 146000 * (y - 1970) + 400 * A - 400 * B + 400 * C"
    unfolding r by (simp add: algebra_simps)
  then show ?thesis using a' b' c' by simp
qed

lemma dayFromYear_upper: "400 * dayFromYear y \<le> 146097 * (y - 1970) + 589"
proof -
  define A where "A = (y - 1969) div 4"
  define B where "B = (y - 1901) div 100"
  define C where "C = (y - 1601) div 400"
  have a: "4 * A \<le> y - 1969" unfolding A_def using div_bounds(1)[of 4 "y - 1969"] by simp
  have b: "y - 1901 < 100 * B + 100" unfolding B_def using div_bounds(2)[of 100 "y - 1901"] by simp
  have c: "400 * C \<le> y - 1601" unfolding C_def using div_bounds(1)[of 400 "y - 1601"] by simp
  have r: "dayFromYear y = 365 * (y - 1970) + A - B + C"
    unfolding dayFromYear_def A_def B_def C_def ..
  have a': "400 * A \<le> 100 * (y - 1969)" using a by simp
  have b': "400 * B \<ge> 4 * (y - 1901) - 396" using b by simp
  have c': "400 * C \<le> y - 1601" using c by simp
  have "400 * dayFromYear y = 146000 * (y - 1970) + 400 * A - 400 * B + 400 * C"
    unfolding r by (simp add: algebra_simps)
  then show ?thesis using a' b' c' by simp
qed

text \<open>\<open>yearFromDay\<close> is the year the day falls in.\<close>

lemma yearFromDay_bounds:
  "dayFromYear (yearFromDay z) \<le> z \<and> z < dayFromYear (yearFromDay z + 1)"
proof -
  define k where "k = (400 * z) div 146097"
  define e where "e = 1970 + k"
  have k1: "146097 * k \<le> 400 * z" unfolding k_def using div_bounds(1)[of 146097 "400 * z"] by simp
  have k2: "400 * z < 146097 * k + 146097"
    unfolding k_def using div_bounds(2)[of 146097 "400 * z"] by simp
  have lo: "dayFromYear (e - 1) \<le> z"
  proof -
    have "400 * dayFromYear (e - 1) \<le> 146097 * k"
      using dayFromYear_upper[of "e - 1"] unfolding e_def by simp
    then have "400 * dayFromYear (e - 1) \<le> 400 * z" using k1 by simp
    then show ?thesis by simp
  qed
  have hi: "z < dayFromYear (e + 1 + 1)"
  proof -
    have "146097 * k + 146097 \<le> 400 * dayFromYear (e + 1 + 1)"
      using dayFromYear_lower[of "e + 1 + 1"] unfolding e_def by simp
    then have "400 * z < 400 * dayFromYear (e + 1 + 1)" using k2 by simp
    then show ?thesis by simp
  qed
  have y: "yearFromDay z = (if dayFromYear (e + 1) \<le> z then e + 1
                            else if dayFromYear e \<le> z then e else e - 1)"
    unfolding yearFromDay_def e_def k_def by (simp add: Let_def)
  have em: "e - 1 + 1 = e" by simp
  show ?thesis
  proof (cases "dayFromYear (e + 1) \<le> z")
    case True
    then show ?thesis using hi y by simp
  next
    case F1: False
    show ?thesis
    proof (cases "dayFromYear e \<le> z")
      case True
      then show ?thesis using F1 y by simp
    next
      case False
      then show ?thesis using F1 y lo em by simp
    qed
  qed
qed

lemma dayWithinYear_range:
  "0 \<le> z - dayFromYear (yearFromDay z)
   \<and> z - dayFromYear (yearFromDay z) \<le> 364 + leapDays (yearFromDay z)"
  using yearFromDay_bounds[of z] year_length[of "yearFromDay z"] by linarith

lemma leapDays_range: "leapDays y = 0 \<or> leapDays y = 1"
  by (simp add: leapDays_def)

lemma monthFromDay_range: "1 \<le> monthFromDay d l \<and> monthFromDay d l \<le> 12"
  by (simp add: monthFromDay_def)

lemma date_range:
  assumes "0 \<le> d" and "d \<le> 364 + l" and "l = 0 \<or> l = 1"
  shows "1 \<le> d - monthStart (monthFromDay d l) l + 1
         \<and> d - monthStart (monthFromDay d l) l + 1 \<le> 31"
  using assms unfolding monthFromDay_def monthStart_def by (auto split: if_splits)

lemma civilFromDays_range:
  assumes "civilFromDays z = (y, m, d)"
  shows "1 \<le> m \<and> m \<le> 12 \<and> 1 \<le> d \<and> d \<le> 31"
proof -
  define yy where "yy = yearFromDay z"
  define dw where "dw = z - dayFromYear yy"
  have m: "m = monthFromDay dw (leapDays yy)"
    and d: "d = dw - monthStart (monthFromDay dw (leapDays yy)) (leapDays yy) + 1"
    using assms unfolding civilFromDays_def yy_def dw_def by (auto simp: Let_def)
  have r: "0 \<le> dw \<and> dw \<le> 364 + leapDays yy"
    unfolding dw_def yy_def by (rule dayWithinYear_range)
  show ?thesis
    using monthFromDay_range[of dw "leapDays yy"] date_range[of dw "leapDays yy"] r
      leapDays_range[of yy] m d by simp
qed

text \<open>The day number of the date of a day number is that day number.\<close>

lemma daysFromCivil_civilFromDays:
  "civilFromDays z = (y, m, d) \<Longrightarrow> daysFromCivil y m d = z"
  unfolding civilFromDays_def daysFromCivil_def by (auto simp: Let_def)

subsection \<open>Printed dates parse\<close>

lemma digitChar_val:
  "isDigit (digitChar n) \<and> int (of_char (digitChar n)) - 48 = n mod 10"
proof -
  define k where "k = n mod 10"
  have k: "0 \<le> k" "k \<le> 9" unfolding k_def by simp_all
  have "nat (48 + k) < 256" using k by simp
  then have o: "(of_char (char_of (nat (48 + k))) :: nat) = nat (48 + k)"
    by (simp add: of_char_of)
  show ?thesis
    unfolding digitChar_def isDigit_def k_def[symmetric] o using k
    by (simp add: nat_le_iff le_nat_iff)
qed

lemma digitsVal_pad2:
  assumes "0 \<le> n" and "n < 100"
  shows "digitsVal (pad2 n) = Some n"
proof -
  have "(n div 10) mod 10 = n div 10" using assms by simp
  then have "10 * ((n div 10) mod 10) + n mod 10 = n" by simp
  then show ?thesis
    using digitChar_val[of "n div 10"] digitChar_val[of n]
    by (simp add: digitsVal_def pad2_def)
qed

lemma digitsVal_pad4: "\<exists>v. digitsVal (pad4 n) = Some v"
  using digitChar_val[of "n div 1000"] digitChar_val[of "n div 100"]
    digitChar_val[of "n div 10"] digitChar_val[of n]
  by (simp add: digitsVal_def pad4_def)

lemma toISODate_parses: "\<exists>d. parseDatePart (toISODate t) = Some d"
proof -
  obtain y m d where c: "civilFromDays (t div msPerDay) = (y, m, d)"
    by (metis prod_cases3)
  have r: "1 \<le> m \<and> m \<le> 12 \<and> 1 \<le> d \<and> d \<le> 31" using civilFromDays_range[OF c] .
  obtain a b c' e where p4: "pad4 y = [a, b, c', e]" by (simp add: pad4_def)
  obtain f g where pm: "pad2 m = [f, g]" by (simp add: pad2_def)
  obtain h i where pd: "pad2 d = [h, i]" by (simp add: pad2_def)
  obtain v where v: "digitsVal [a, b, c', e] = Some v" using digitsVal_pad4[of y] p4 by auto
  have vm: "digitsVal [f, g] = Some m" using digitsVal_pad2[of m] r pm by simp
  have vd: "digitsVal [h, i] = Some d" using digitsVal_pad2[of d] r pd by simp
  have s: "toISODate t = [a, b, c', e, CHR ''-'', f, g, CHR ''-'', h, i]"
    by (simp add: toISODate_def c p4 pm pd)
  show ?thesis
    unfolding s parseDatePart_def using v vm vd r by simp
qed

lemma loaded_date_parses:
  assumes "x \<in> set (loadDates now)"
  shows "\<exists>v. Date_parse tz x = Some v"
proof -
  obtain i where x: "x = toISODate (setDatePlus now i)"
    using assms by (auto simp: loadDates_def dateString_def)
  obtain d where d: "parseDatePart x = Some d" using toISODate_parses x by blast
  have "length x = 10" using d by (rule parsed_date_length)
  then show ?thesis using d by (simp add: Date_parse_def)
qed

subsection \<open>Upcoming and past\<close>

lemma parsed_exactly_one:
  assumes "r \<in> set verified" and "Date_parse tz (slot_date r) = Some v"
  shows "(r \<in> set (upcomingAppointments tz today verified))
         \<noteq> (r \<in> set (pastAppointments tz today verified))"
proof -
  obtain m where m: "appointmentDate tz r = Some m"
    using assms(2) by (simp add: appointmentDate_def setHours0_def)
  show ?thesis
    using assms(1) m
    by (auto simp: upcomingAppointments_def pastAppointments_def dateGe_def dateLt_def)
qed

text \<open>
  Claim C6. For every record of the classification input, exactly one of the upcoming
  and past views contains it: both views compare the local midnight of the record's
  date with the same \<open>today\<close>. The input is a list of owned records whose dates are
  among the dates of a load (\<open>loadDates now\<close>), the only dates the fetch asks for; in
  particular the owned records of a list that the fetch returned for those dates.
\<close>

theorem partition_exactly_one:
  "(r \<in> set verified \<and> slot_date r \<in> set (loadDates now)
      \<longrightarrow> (r \<in> set (upcomingAppointments tz today verified))
            \<noteq> (r \<in> set (pastAppointments tz today verified)))
   \<and> (getUserAppointmentsForMultipleDatesWith tr lc like qf db (loadDates now)
          (name user) (phone user) = Inr fetched
        \<and> r \<in> set (verifiedUserAppointmentsWith tr lc user fetched)
      \<longrightarrow> \<not> is_available r
          \<and> (r \<in> set (upcomingAppointments tz today (verifiedUserAppointmentsWith tr lc user fetched)))
            \<noteq> (r \<in> set (pastAppointments tz today (verifiedUserAppointmentsWith tr lc user fetched))))"
proof (rule conjI)
  show "r \<in> set verified \<and> slot_date r \<in> set (loadDates now)
      \<longrightarrow> (r \<in> set (upcomingAppointments tz today verified))
            \<noteq> (r \<in> set (pastAppointments tz today verified))"
  proof (rule impI)
    assume a: "r \<in> set verified \<and> slot_date r \<in> set (loadDates now)"
    then obtain v where "Date_parse tz (slot_date r) = Some v"
      using loaded_date_parses by blast
    then show "(r \<in> set (upcomingAppointments tz today verified))
              \<noteq> (r \<in> set (pastAppointments tz today verified))"
      using a parsed_exactly_one by blast
  qed
next
  let ?v = "verifiedUserAppointmentsWith tr lc user fetched"
  show "getUserAppointmentsForMultipleDatesWith tr lc like qf db (loadDates now)
          (name user) (phone user) = Inr fetched
        \<and> r \<in> set ?v
      \<longrightarrow> \<not> is_available r
          \<and> (r \<in> set (upcomingAppointments tz today ?v))
            \<noteq> (r \<in> set (pastAppointments tz today ?v))"
  proof (rule impI)
    assume a: "getUserAppointmentsForMultipleDatesWith tr lc like qf db (loadDates now)
            (name user) (phone user) = Inr fetched
          \<and> r \<in> set ?v"
    then have f: "r \<in> set fetched" unfolding verifiedWith_filter by simp
    then have b: "\<not> is_available r \<and> slot_date r \<in> set (loadDates now)"
      using a fetch_bookedWith by blast
    then obtain v where "Date_parse tz (slot_date r) = Some v"
      using loaded_date_parses by blast
    then have "(r \<in> set (upcomingAppointments tz today ?v))
              \<noteq> (r \<in> set (pastAppointments tz today ?v))"
      using a parsed_exactly_one by blast
    then show "\<not> is_available r
            \<and> (r \<in> set (upcomingAppointments tz today ?v))
              \<noteq> (r \<in> set (pastAppointments tz today ?v))"
      using b by simp
  qed
qed

theorem partition_exactly_one_witness:
  "danaBooked \<in> set [danaBooked, phoneOnly]
   \<and> slot_date danaBooked \<in> set (loadDates 1704060000000)
   \<and> danaBooked \<in> set (upcomingAppointments 120 1704146400000 [danaBooked, phoneOnly])
   \<and> danaBooked \<notin> set (pastAppointments 120 1704146400000 [danaBooked, phoneOnly])
   \<and> getUserAppointmentsForMultipleDatesWith trim toLowerCase nameLike False
        [stranger, openSlot, danaBooked] (loadDates 1704060000000) (name dana) (phone dana)
        = Inr [danaBooked]
   \<and> danaBooked \<in> set (verifiedUserAppointmentsWith trim toLowerCase dana [danaBooked])
   \<and> \<not> is_available danaBooked
   \<and> danaBooked \<in> set (pastAppointments 120 1704326400000
                           (verifiedUserAppointmentsWith trim toLowerCase dana [danaBooked]))
   \<and> danaBooked \<notin> set (upcomingAppointments 120 1704326400000
                           (verifiedUserAppointmentsWith trim toLowerCase dana [danaBooked]))"
proof -
  note t1 = partition_exactly_one[of danaBooked "[danaBooked, phoneOnly]" 1704060000000
      120 1704146400000 trim toLowerCase nameLike False "[stranger, openSlot, danaBooked]"
      dana "[danaBooked]"]
  note t2 = partition_exactly_one[of danaBooked "[danaBooked, phoneOnly]" 1704060000000
      120 1704326400000 trim toLowerCase nameLike False "[stranger, openSlot, danaBooked]"
      dana "[danaBooked]"]
  have 1: "danaBooked \<in> set [danaBooked, phoneOnly]" by simp
  have 2: "slot_date danaBooked \<in> set (loadDates 1704060000000)" by code_simp
  have 3: "danaBooked \<in> set (upcomingAppointments 120 1704146400000 [danaBooked, phoneOnly])"
    by code_simp
  have 4: "getUserAppointmentsForMultipleDatesWith trim toLowerCase nameLike False
        [stranger, openSlot, danaBooked] (loadDates 1704060000000) (name dana) (phone dana)
        = Inr [danaBooked]"
    by code_simp
  have 5: "danaBooked \<in> set (verifiedUserAppointmentsWith trim toLowerCase dana [danaBooked])"
    by code_simp
  have 6: "danaBooked \<in> set (pastAppointments 120 1704326400000
                             (verifiedUserAppointmentsWith trim toLowerCase dana [danaBooked]))"
    by code_simp
  have a: "danaBooked \<notin> set (pastAppointments 120 1704146400000 [danaBooked, phoneOnly])"
    using t1 1 2 3 by blast
  have b: "\<not> is_available danaBooked
     \<and> danaBooked \<notin> set (upcomingAppointments 120 1704326400000
                           (verifiedUserAppointmentsWith trim toLowerCase dana [danaBooked]))"
    using t2 4 5 6 by blast
  show ?thesis using 1 2 3 4 5 6 a b by blast
qed

subsection \<open>Cancelling\<close>

lemma update_noop:
  assumes "filter (\<lambda>r. slot_id r = i) db = [r]" and "is_available r"
  shows "map (\<lambda>x. if slot_id x = i \<and> \<not> is_available x then freeSlot x else x) db = db"
proof (rule map_idI)
  fix x assume "x \<in> set db"
  show "(if slot_id x = i \<and> \<not> is_available x then freeSlot x else x) = x"
  proof (cases "slot_id x = i")
    case True
    then have "x \<in> set (filter (\<lambda>r. slot_id r = i) db)" using \<open>x \<in> set db\<close> by simp
    then have "x = r" using assms(1) by simp
    then show ?thesis using assms(2) by simp
  next
    case False
    then show ?thesis by simp
  qed
qed

text \<open>
  Claim C1 (amended). For a cancel request on a record that is already available when
  the update runs, the conditional update changes no row of the table. When the fetch
  or the update returns an error, the operation reports failure and the local list is
  left unchanged. When neither returns an error and the waitlist notifications resolve,
  the operation reports success and the record is removed from the local list.
\<close>

theorem cancel_already_available:
  assumes "selectedAppointment s = Some sel"
    and "filter (\<lambda>r. slot_id r = slot_id sel) db = [r]"
    and "is_available r"
  shows "fst (snd (confirmCancelAppointment w user db s)) = db
       \<and> (selectFails w \<or> updateFails w \<longrightarrow>
            confirmCancelAppointment w user db s
              = (s\<lparr>isCanceling := False\<rparr>, db, [Alert CouldNotCancel]))
       \<and> (\<not> selectFails w \<and> \<not> updateFails w \<and> slotWaitlist w = Resolves
            \<and> serviceWaitlist w = Resolves \<longrightarrow>
            cancelAppointment w db (slot_id sel)
              = (True, db, [CheckWaitlistAndNotify r, NotifyServiceWaitlistClients r])
            \<and> alerts (snd (snd (confirmCancelAppointment w user db s))) = []
            \<and> userAppointments (fst (confirmCancelAppointment w user db s))
                = filter (\<lambda>apt. slot_id apt \<noteq> slot_id sel) (userAppointments s))"
proof -
  note noop = update_noop[OF assms(2,3)]
  have sel: "selectSingle w db (slot_id sel) = (if selectFails w then Inl QueryError else Inr r)"
    using assms(2) by (simp add: selectSingle_def)
  have upd: "updateCancel w db (slot_id sel) = (if updateFails w then Inl QueryError else Inr db)"
    using noop by (simp add: updateCancel_def)
  have c: "cancelAppointment w db (slot_id sel) =
      (if selectFails w \<or> updateFails w then (False, db, [])
       else (case slotWaitlist w of
               Rejects \<Rightarrow> (False, db, [CheckWaitlistAndNotify r])
             | Resolves \<Rightarrow>
                 (case serviceWaitlist w of
                    Rejects \<Rightarrow> (False, db, [CheckWaitlistAndNotify r, NotifyServiceWaitlistClients r])
                  | Resolves \<Rightarrow> (True, db, [CheckWaitlistAndNotify r, NotifyServiceWaitlistClients r]))))"
    by (simp add: cancelAppointment_def sel upd)
  show ?thesis
    using assms(1)
    by (simp add: confirmCancelAppointment_def c alerts_def adminEffect_def catchIgnore_def
        Let_def split: outcome.splits)
qed

theorem cancel_already_available_witness:
  "selectedAppointment cancelling = Some danaBooked
   \<and> filter (\<lambda>r. slot_id r = slot_id danaBooked) [freedSlot] = [freedSlot]
   \<and> is_available freedSlot
   \<and> fst (snd (confirmCancelAppointment calm dana [freedSlot] cancelling)) = [freedSlot]
   \<and> alerts (snd (snd (confirmCancelAppointment calm dana [freedSlot] cancelling))) = []
   \<and> userAppointments (fst (confirmCancelAppointment calm dana [freedSlot] cancelling)) = []
   \<and> confirmCancelAppointment (calm\<lparr>updateFails := True\<rparr>) dana [freedSlot] cancelling
        = (cancelling\<lparr>isCanceling := False\<rparr>, [freedSlot], [Alert CouldNotCancel])"
proof -
  have 1: "selectedAppointment cancelling = Some danaBooked" by (simp add: cancelling_def)
  have 2: "filter (\<lambda>r. slot_id r = slot_id danaBooked) [freedSlot] = [freedSlot]"
    by (simp add: danaBooked_def freedSlot_def)
  have 3: "is_available freedSlot" by (simp add: freedSlot_def)
  have u: "filter (\<lambda>apt. slot_id apt \<noteq> slot_id danaBooked) (userAppointments cancelling) = []"
    by (simp add: cancelling_def)
  show ?thesis
    using 1 2 3 u cancel_already_available[OF 1 2 3, of calm dana]
      cancel_already_available[OF 1 2 3, of "calm\<lparr>updateFails := True\<rparr>" dana]
    by (simp add: calm_def)
qed

text \<open>
  The claim as stated fails: the row is already available, the local list still shows
  the booking, no call returns an error, and the operation reports success (no alert)
  and removes the booking from the local list.
\<close>

theorem cancel_already_available_counterexample:
  "is_available freedSlot
   \<and> danaBooked \<in> set (userAppointments cancelling)
   \<and> selectedAppointment cancelling = Some danaBooked
   \<and> slot_id freedSlot = slot_id danaBooked
   \<and> cancelAppointment calm [freedSlot] (slot_id danaBooked)
       = (True, [freedSlot], [CheckWaitlistAndNotify freedSlot, NotifyServiceWaitlistClients freedSlot])
   \<and> alerts (snd (snd (confirmCancelAppointment calm dana [freedSlot] cancelling))) = []
   \<and> userAppointments (fst (confirmCancelAppointment calm dana [freedSlot] cancelling)) = []"
  by code_simp

lemma waitlistNotifier_resolves: "waitlistNotifier d = Resolves"
  by (cases d) (simp_all add: waitlistNotifier_def)

lemma catchIgnore_resolves: "catchIgnore p = Resolves"
  by (cases p) (simp_all add: catchIgnore_def)

text \<open>
  Claim C2. For every successful cancellation (the fetch finds the one row and neither
  table call returns an error), whether each of the two waitlist deliveries works or
  fails and whether the promise of the admin notification resolves or rejects, the
  cancel operation reports success, the user sees no alert, the record is removed from
  the local list and the dialog closes, and all three emissions are made, in order: the
  slot waitlist, the service waitlist, the admin notification. No rejection is left
  unhandled.
\<close>

theorem emissions_fire_and_forget:
  assumes "selectedAppointment s = Some sel"
    and "filter (\<lambda>r. slot_id r = slot_id sel) db = [a]"
  shows "cancelAppointment (cancellationWith slotDelivery serviceDelivery admin) db (slot_id sel)
           = (True,
              map (\<lambda>r. if slot_id r = slot_id sel \<and> \<not> is_available r then freeSlot r else r) db,
              [CheckWaitlistAndNotify a, NotifyServiceWaitlistClients a])
       \<and> confirmCancelAppointment (cancellationWith slotDelivery serviceDelivery admin) user db s
           = (s\<lparr>userAppointments :=
                   filter (\<lambda>apt. slot_id apt \<noteq> slot_id sel) (userAppointments s),
                 showCancelModal := False, selectedAppointment := None, isCanceling := False\<rparr>,
              map (\<lambda>r. if slot_id r = slot_id sel \<and> \<not> is_available r then freeSlot r else r) db,
              [CheckWaitlistAndNotify a, NotifyServiceWaitlistClients a, adminEffect user sel])
       \<and> alerts (snd (snd (confirmCancelAppointment
                              (cancellationWith slotDelivery serviceDelivery admin) user db s))) = []"
proof -
  let ?w = "cancellationWith slotDelivery serviceDelivery admin"
  let ?db = "map (\<lambda>r. if slot_id r = slot_id sel \<and> \<not> is_available r then freeSlot r else r) db"
  have s1: "selectSingle ?w db (slot_id sel) = Inr a"
    using assms(2) by (simp add: selectSingle_def cancellationWith_def)
  have s2: "updateCancel ?w db (slot_id sel) = Inr ?db"
    by (simp add: updateCancel_def cancellationWith_def)
  have w1: "slotWaitlist ?w = Resolves"
    by (simp add: cancellationWith_def waitlistNotifier_resolves)
  have w2: "serviceWaitlist ?w = Resolves"
    by (simp add: cancellationWith_def waitlistNotifier_resolves)
  have c: "cancelAppointment ?w db (slot_id sel)
             = (True, ?db, [CheckWaitlistAndNotify a, NotifyServiceWaitlistClients a])"
    by (simp add: cancelAppointment_def s1 s2 w1 w2)
  have k: "confirmCancelAppointment ?w user db s
           = (s\<lparr>userAppointments :=
                   filter (\<lambda>apt. slot_id apt \<noteq> slot_id sel) (userAppointments s),
                 showCancelModal := False, selectedAppointment := None, isCanceling := False\<rparr>,
              ?db,
              [CheckWaitlistAndNotify a, NotifyServiceWaitlistClients a, adminEffect user sel])"
    using assms(1) by (simp add: confirmCancelAppointment_def c catchIgnore_resolves Let_def)
  have al: "alerts (snd (snd (confirmCancelAppointment ?w user db s))) = []"
    unfolding k by (simp add: alerts_def adminEffect_def)
  show ?thesis using c k al by simp
qed

theorem emissions_fire_and_forget_witness:
  "selectedAppointment cancelling = Some danaBooked
   \<and> filter (\<lambda>r. slot_id r = slot_id danaBooked) [stranger, danaBooked] = [danaBooked]
   \<and> cancelAppointment (cancellationWith Failed Failed Rejects) [stranger, danaBooked]
        (slot_id danaBooked)
       = (True, [stranger, freeSlot danaBooked],
          [CheckWaitlistAndNotify danaBooked, NotifyServiceWaitlistClients danaBooked])
   \<and> confirmCancelAppointment (cancellationWith Failed Failed Rejects) dana
        [stranger, danaBooked] cancelling
       = (cancelling\<lparr>userAppointments := [], showCancelModal := False,
            selectedAppointment := None, isCanceling := False\<rparr>,
          [stranger, freeSlot danaBooked],
          [CheckWaitlistAndNotify danaBooked, NotifyServiceWaitlistClients danaBooked,
           adminEffect dana danaBooked])
   \<and> alerts (snd (snd (confirmCancelAppointment (cancellationWith Failed Failed Rejects) dana
                          [stranger, danaBooked] cancelling))) = []"
proof -
  have 1: "selectedAppointment cancelling = Some danaBooked" by (simp add: cancelling_def)
  have 2: "filter (\<lambda>r. slot_id r = slot_id danaBooked) [stranger, danaBooked] = [danaBooked]"
    by (simp add: danaBooked_def stranger_def)
  have u: "filter (\<lambda>apt. slot_id apt \<noteq> slot_id danaBooked) (userAppointments cancelling) = []"
    by (simp add: cancelling_def)
  have m: "map (\<lambda>r. if slot_id r = slot_id danaBooked \<and> \<not> is_available r then freeSlot r else r)
             [stranger, danaBooked] = [stranger, freeSlot danaBooked]"
    by (simp add: danaBooked_def stranger_def)
  note t = emissions_fire_and_forget[OF 1 2, of Failed Failed Rejects dana, unfolded m u]
  show ?thesis
    by (intro conjI) (rule 1, rule 2, rule t[THEN conjunct1],
        rule t[THEN conjunct2, THEN conjunct1], rule t[THEN conjunct2, THEN conjunct2])
qed

text \<open>
  Both waitlist promises are awaited inside the \<^verbatim>\<open>try\<close> block of the cancel
  operation. A promise of theirs that rejected, which the contract of the notifier
  excludes, would be caught there after the row was freed, and the later emissions
  would not be made.
\<close>

lemma awaited_rejection_is_caught:
  "cancelAppointment (calm\<lparr>slotWaitlist := Rejects\<rparr>) [danaBooked] (slot_id danaBooked)
     = (False, [freeSlot danaBooked], [CheckWaitlistAndNotify danaBooked])
   \<and> cancelAppointment (calm\<lparr>serviceWaitlist := Rejects\<rparr>) [danaBooked] (slot_id danaBooked)
     = (False, [freeSlot danaBooked],
        [CheckWaitlistAndNotify danaBooked, NotifyServiceWaitlistClients danaBooked])"
  by code_simp

subsection \<open>The window of dates that is loaded\<close>

lemma length_loadDates: "length (loadDates today) = 22"
  by (simp add: loadDates_def)

lemma loadDates_set:
  "set (loadDates today) = (\<lambda>i. toISODate (today + i * msPerDay)) ` {-7..14}"
proof -
  have "dateString today = (\<lambda>i. toISODate (today + i * msPerDay))"
    by (rule ext) (simp add: dateString_def setDatePlus_def)
  then show ?thesis
    by (simp only: loadDates_def set_map set_upto)
qed

lemma load_within_dates:
  assumes "truthy (name user) \<or> truthy (phone user)"
  shows "\<forall>r\<in>set (userAppointments (loadUserAppointments False today db user isRefresh s)).
           slot_date r \<in> set (loadDates today) \<and> \<not> is_available r"
proof -
  obtain fetched where f: "getUserAppointmentsForMultipleDates False db (loadDates today)
      (name user) (phone user) = Inr fetched"
    by (simp add: getUserAppointmentsForMultipleDates_def
        getUserAppointmentsForMultipleDatesWith_def Let_def)
  have "userAppointments (loadUserAppointments False today db user isRefresh s) = fetched"
    using assms f by (auto simp: loadUserAppointments_def Let_def)
  then show ?thesis using fetch_booked[OF f] by simp
qed

text \<open>
  Claim C10, at 01:00 local time on 2024-01-10 on a device two hours ahead of UTC. The
  22 dates asked for run from 2024-01-02 to 2024-01-23: the loop moves the local date,
  and the ISO string gives the date in UTC, which is still 2024-01-09. An appointment of
  2024-01-02, eight days before today, is loaded and shown in the past view; one of
  2024-01-24, fourteen days ahead, is not loaded.
\<close>

theorem load_window_early_hours:
  "todayMidnight 120 1704841200000 = 1704837600000
   \<and> loadDates 1704841200000 =
       [''2024-01-02'', ''2024-01-03'', ''2024-01-04'', ''2024-01-05'', ''2024-01-06'',
        ''2024-01-07'', ''2024-01-08'', ''2024-01-09'', ''2024-01-10'', ''2024-01-11'',
        ''2024-01-12'', ''2024-01-13'', ''2024-01-14'', ''2024-01-15'', ''2024-01-16'',
        ''2024-01-17'', ''2024-01-18'', ''2024-01-19'', ''2024-01-20'', ''2024-01-21'',
        ''2024-01-22'', ''2024-01-23'']
   \<and> userAppointments
         (loadUserAppointments False 1704841200000 [eightDaysAgo, fourteenAhead] dana False screen0)
       = [eightDaysAgo]
   \<and> views 120 1704837600000 dana [eightDaysAgo] = ([], [eightDaysAgo], None)
   \<and> appointmentDate 120 eightDaysAgo = Some (1704837600000 - 8 * msPerDay)
   \<and> appointmentDate 120 fourteenAhead = Some (1704837600000 + 14 * msPerDay)"
  by code_simp

end
